theory Spec2Isabelle
  imports Complex_Main
begin

section \<open>Numbers and vectors\<close>

text \<open>
  The simulation computes with JavaScript numbers and with the three-component vectors
  of the gl-matrix library (\<^verbatim>\<open>vec3\<close>). Numbers are modelled as exact reals, a vector as a
  triple of reals. The functions below are the gl-matrix operations the sphere classes
  call; gl-matrix is a library the repository loads, so they follow its documented
  behaviour. Every call in the sources passes the receiving array as \<^verbatim>\<open>out\<close> and as first
  operand, so each function returns the new contents of that array.

  Two points where the reals differ from the machine are kept visible: the models divide
  by \<open>mass\<close> as the sources do, and a statement whose truth depends on that quotient
  assumes \<open>mass \<noteq> 0\<close>; \<^verbatim>\<open>vec3.normalize\<close> leaves a vector of length zero as it is,
  which is the guard the library has.

  A gl-matrix vector is a \<^verbatim>\<open>Float32Array\<close>: each component written to it is rounded to
  single precision. The triples of this theory hold the components as they are computed,
  before that rounding (so \<open>vec3_fromValues x y z\<close> is the triple of its arguments); what
  the array then keeps of a triple is \<open>stored\<close> of it, defined in the section on single
  precision below. The statements on the position that a \<^verbatim>\<open>tick\<close> leaves inside the box
  are made on the stored components, since there the rounding decides on which side of a
  bound a coordinate lies.
\<close>

type_synonym vec3 = "real \<times> real \<times> real"

abbreviation v0 :: "vec3 \<Rightarrow> real" where "v0 a \<equiv> fst a"
abbreviation v1 :: "vec3 \<Rightarrow> real" where "v1 a \<equiv> fst (snd a)"
abbreviation v2 :: "vec3 \<Rightarrow> real" where "v2 a \<equiv> snd (snd a)"

definition vec3_create :: vec3 where
  "vec3_create = (0, 0, 0)"

definition vec3_fromValues :: "real \<Rightarrow> real \<Rightarrow> real \<Rightarrow> vec3" where
  "vec3_fromValues x y z = (x, y, z)"

definition vec3_clone :: "vec3 \<Rightarrow> vec3" where
  "vec3_clone a = (v0 a, v1 a, v2 a)"

definition vec3_add :: "vec3 \<Rightarrow> vec3 \<Rightarrow> vec3" where
  "vec3_add a b = (v0 a + v0 b, v1 a + v1 b, v2 a + v2 b)"

definition vec3_scale :: "vec3 \<Rightarrow> real \<Rightarrow> vec3" where
  "vec3_scale a b = (v0 a * b, v1 a * b, v2 a * b)"

definition vec3_negate :: "vec3 \<Rightarrow> vec3" where
  "vec3_negate a = (- v0 a, - v1 a, - v2 a)"

definition vec3_length :: "vec3 \<Rightarrow> real" where
  "vec3_length a = sqrt (v0 a * v0 a + v1 a * v1 a + v2 a * v2 a)"

definition vec3_normalize :: "vec3 \<Rightarrow> vec3" where
  "vec3_normalize a =
     (let len = v0 a * v0 a + v1 a * v1 a + v2 a * v2 a
      in if len > 0
         then (let len = 1 / sqrt len in (v0 a * len, v1 a * len, v2 a * len))
         else a)"

section \<open>The sphere of Sphere.js\<close>

text \<open>
  The fields behind the property accessors of class \<^verbatim>\<open>Sphere\<close>
  (\<^verbatim>\<open>_radius\<close>, \<^verbatim>\<open>_position\<close>, \<^verbatim>\<open>_velocity\<close>, \<^verbatim>\<open>_speed\<close>, \<^verbatim>\<open>_color\<close>, \<^verbatim>\<open>_mass\<close>).
  A method that mutates the object takes the state and returns the new one.
\<close>

record sphere =
  radius :: real
  position :: vec3
  velocity :: vec3
  speed :: real
  color :: vec3
  mass :: real

definition set_radius :: "real \<Rightarrow> sphere \<Rightarrow> sphere" where
  "set_radius r s = s\<lparr>radius := r\<rparr>"

definition set_position :: "vec3 \<Rightarrow> sphere \<Rightarrow> sphere" where
  "set_position p s = s\<lparr>position := p\<rparr>"

definition set_speed :: "real \<Rightarrow> sphere \<Rightarrow> sphere" where
  "set_speed sp s = s\<lparr>speed := max sp (- sp)\<rparr>"

text \<open>The velocity setter stores the vector, then assigns \<^verbatim>\<open>speed\<close> through its setter.\<close>

definition set_velocity :: "vec3 \<Rightarrow> sphere \<Rightarrow> sphere" where
  "set_velocity v s = (let s = s\<lparr>velocity := v\<rparr> in set_speed (vec3_length (velocity s)) s)"

definition set_color :: "vec3 \<Rightarrow> sphere \<Rightarrow> sphere" where
  "set_color c s = s\<lparr>color := c\<rparr>"

definition set_mass :: "real \<Rightarrow> sphere \<Rightarrow> sphere" where
  "set_mass m s = s\<lparr>mass := m\<rparr>"

text \<open>
  The constructor. \<^verbatim>\<open>vec3.random\<close> and \<^verbatim>\<open>Math.random\<close> draw values; the vectors drawn for
  position, velocity and color are parameters here (the constructor's \<^verbatim>\<open>speed\<close> argument
  is only the length asked of the drawn velocity). Every field is assigned before the
  constructor returns, so the fields of the fresh object never show.
\<close>

definition fresh_sphere :: sphere where
  "fresh_sphere = \<lparr>radius = 0, position = (0, 0, 0), velocity = (0, 0, 0), speed = 0,
                    color = (0, 0, 0), mass = 0\<rparr>"

definition Sphere :: "real \<Rightarrow> vec3 \<Rightarrow> vec3 \<Rightarrow> vec3 \<Rightarrow> sphere" where
  "Sphere r random_position random_velocity random_color =
     (let s = set_radius r fresh_sphere;
          s = set_position vec3_create s;
          s = set_position random_position s;
          s = set_velocity random_velocity s;
          s = set_mass 1 s
      in set_color random_color s)"

definition GRAVITY :: real where
  "GRAVITY = - 9.81"

definition dragFactor :: "real \<Rightarrow> real" where
  "dragFactor timeDelta = 0.9 powr timeDelta"

definition gravityForce :: "sphere \<Rightarrow> vec3" where
  "gravityForce s = vec3_fromValues 0 (GRAVITY * mass s) 0"

definition acceleration :: "sphere \<Rightarrow> vec3" where
  "acceleration s = (let gravity = gravityForce s in vec3_scale gravity (1 / mass s))"

text \<open>
  \<^verbatim>\<open>updateVelocity\<close> scales and adds in place on the array the object holds, then assigns
  it through the setter, which recomputes \<^verbatim>\<open>speed\<close>.
\<close>

definition updateVelocity :: "real \<Rightarrow> sphere \<Rightarrow> sphere" where
  "updateVelocity timeDelta s =
     (let acceleration = vec3_scale (acceleration s) timeDelta;
          s = s\<lparr>velocity := vec3_scale (velocity s) (dragFactor timeDelta)\<rparr>;
          s = s\<lparr>velocity := vec3_add (velocity s) acceleration\<rparr>
      in set_velocity (velocity s) s)"

text \<open>
  \<^verbatim>\<open>updatePosition\<close> works on a clone of the updated velocity, so the velocity the object
  holds is not scaled by the time step.
\<close>

definition updatePosition :: "real \<Rightarrow> sphere \<Rightarrow> sphere" where
  "updatePosition timeDelta s =
     (let s = updateVelocity timeDelta s;
          velocity = vec3_clone (velocity s);
          velocity = vec3_scale velocity timeDelta;
          s = s\<lparr>position := vec3_add (position s) velocity\<rparr>
      in set_position (position s) s)"

text \<open>
  The bounding range object \<^verbatim>\<open>{x: {min, max}, y: {min, max}, z: {min, max}}\<close>.
\<close>

record axisRange =
  range_min :: real
  range_max :: real

record boundingRange =
  xRange :: axisRange
  yRange :: axisRange
  zRange :: axisRange

definition createBoundingRange ::
  "real \<Rightarrow> real \<Rightarrow> real \<Rightarrow> real \<Rightarrow> real \<Rightarrow> real \<Rightarrow> boundingRange" where
  "createBoundingRange minX maxX minY maxY minZ maxZ =
     \<lparr>xRange = \<lparr>range_min = minX, range_max = maxX\<rparr>,
      yRange = \<lparr>range_min = minY, range_max = maxY\<rparr>,
      zRange = \<lparr>range_min = minZ, range_max = maxZ\<rparr>\<rparr>"

definition defaultBoundingRange :: boundingRange where
  "defaultBoundingRange = createBoundingRange (- 10) 10 (- 10) 10 (- 10) 10"

definition handleCollisions :: "real \<Rightarrow> boundingRange \<Rightarrow> sphere \<Rightarrow> sphere" where
  "handleCollisions timeDelta boundingRange s =
     (let x = v0 (position s); y = v1 (position s); z = v2 (position s);
          xVelocity = v0 (velocity s); yVelocity = v1 (velocity s); zVelocity = v2 (velocity s);
          xMin = range_min (xRange boundingRange) + radius s;
          xMax = range_max (xRange boundingRange) - radius s;
          yMin = range_min (yRange boundingRange) + radius s;
          yMax = range_max (yRange boundingRange) - radius s;
          zMin = range_min (zRange boundingRange) + radius s;
          zMax = range_max (zRange boundingRange) - radius s;
          (x, xVelocity) = (if x \<le> xMin then (xMin, xVelocity * - 1) else (x, xVelocity));
          (x, xVelocity) = (if x \<ge> xMax then (xMax, xVelocity * - 1) else (x, xVelocity));
          (y, yVelocity) = (if y \<le> yMin then (yMin, yVelocity * - 1) else (y, yVelocity));
          (y, yVelocity) = (if y \<ge> yMax then (yMax, yVelocity * - 1) else (y, yVelocity));
          (z, zVelocity) = (if z \<le> zMin then (zMin, zVelocity * - 1) else (z, zVelocity));
          (z, zVelocity) = (if z \<ge> zMax then (zMax, zVelocity * - 1) else (z, zVelocity));
          s = set_position (vec3_fromValues x y z) s
      in set_velocity (vec3_fromValues xVelocity yVelocity zVelocity) s)"

text \<open>\<^verbatim>\<open>tick\<close> passes no bounding range, so the default box is the one in effect.\<close>

definition tick :: "real \<Rightarrow> sphere \<Rightarrow> sphere" where
  "tick timeDelta s = handleCollisions timeDelta defaultBoundingRange (updatePosition timeDelta s)"

section \<open>The sphere of the draft with a drag force (src/unnamed/part_003)\<close>

text \<open>
  The second \<^verbatim>\<open>Sphere\<close> class of the repository: it caches \<^verbatim>\<open>radiusSq\<close> and \<^verbatim>\<open>speedSq\<close>,
  derives mass and color from the radius, and computes a drag force. Its definitions carry
  the suffix \<open>_p3\<close>.
\<close>

record sphere_p3 = sphere +
  radiusSq :: real
  speedSq :: real

definition set_mass_p3 :: "real \<Rightarrow> sphere_p3 \<Rightarrow> sphere_p3" where
  "set_mass_p3 m s = s\<lparr>mass := m\<rparr>"

definition set_color_p3 :: "vec3 \<Rightarrow> sphere_p3 \<Rightarrow> sphere_p3" where
  "set_color_p3 c s = s\<lparr>color := c\<rparr>"

definition set_radius_p3 :: "real \<Rightarrow> sphere_p3 \<Rightarrow> sphere_p3" where
  "set_radius_p3 r s =
     (let s = s\<lparr>radius := r\<rparr>;
          s = s\<lparr>radiusSq := radius s * radius s\<rparr>;
          s = set_mass_p3 (r * r * 0.5) s;
          red = 255.0 * mass s;
          green = 255.0 * (1.0 - \<bar>1.0 - 2.0 * mass s\<bar>);
          blue = 255.0 * (1.0 - mass s)
      in set_color_p3 (vec3_fromValues red green blue) s)"

definition set_position_p3 :: "vec3 \<Rightarrow> sphere_p3 \<Rightarrow> sphere_p3" where
  "set_position_p3 p s = s\<lparr>position := p\<rparr>"

definition set_speed_p3 :: "real \<Rightarrow> sphere_p3 \<Rightarrow> sphere_p3" where
  "set_speed_p3 sp s =
     (let s = s\<lparr>speed := max sp (- sp)\<rparr>
      in s\<lparr>speedSq := speed s * speed s\<rparr>)"

definition set_velocity_p3 :: "vec3 \<Rightarrow> sphere_p3 \<Rightarrow> sphere_p3" where
  "set_velocity_p3 v s =
     (let s = s\<lparr>velocity := v\<rparr> in set_speed_p3 (vec3_length (velocity s)) s)"

text \<open>
  The constructor of the draft assigns fresh zero vectors through the setters and then
  lets \<^verbatim>\<open>vec3.random\<close> fill them in place: the setters do not run again, so the cached
  speed stays the one of the zero vector.
\<close>

definition fresh_sphere_p3 :: sphere_p3 where
  "fresh_sphere_p3 = \<lparr>radius = 0, position = (0, 0, 0), velocity = (0, 0, 0), speed = 0,
                       color = (0, 0, 0), mass = 0, radiusSq = 0, speedSq = 0\<rparr>"

definition Sphere_p3 :: "real \<Rightarrow> real \<Rightarrow> vec3 \<Rightarrow> vec3 \<Rightarrow> sphere_p3" where
  "Sphere_p3 r sp random_position random_velocity =
     (let s = set_radius_p3 r fresh_sphere_p3;
          s = set_speed_p3 sp s;
          s = set_position_p3 vec3_create s;
          s = s\<lparr>position := random_position\<rparr>;
          s = set_velocity_p3 vec3_create s
      in s\<lparr>velocity := random_velocity\<rparr>)"

definition HALFCDRHO :: real where
  "HALFCDRHO = 0.90438598515"

definition GRAVITY_p3 :: real where
  "GRAVITY_p3 = 9.81"

definition dragForce_p3 :: "sphere_p3 \<Rightarrow> vec3" where
  "dragForce_p3 s =
     (let force = HALFCDRHO * speedSq s * radiusSq s;
          direction = vec3_clone (velocity s);
          direction = vec3_normalize direction;
          direction = vec3_negate direction
      in vec3_scale direction force)"

definition gravityForce_p3 :: "sphere_p3 \<Rightarrow> vec3" where
  "gravityForce_p3 s = vec3_fromValues 0 (- 1 * GRAVITY_p3 * mass s) 0"

definition acceleration_p3 :: "sphere_p3 \<Rightarrow> vec3" where
  "acceleration_p3 s =
     (let combinedForce = vec3_create;
          combinedForce = vec3_add (gravityForce_p3 s) (dragForce_p3 s)
      in vec3_scale combinedForce (1.0 / mass s))"

definition updateVelocity_p3 :: "real \<Rightarrow> sphere_p3 \<Rightarrow> sphere_p3" where
  "updateVelocity_p3 timeDelta s =
     (let acceleration = vec3_scale (acceleration_p3 s) timeDelta;
          s = s\<lparr>velocity := vec3_add (velocity s) acceleration\<rparr>
      in set_velocity_p3 (velocity s) s)"

text \<open>
  \<^verbatim>\<open>updateVelocity\<close> returns the array the object holds, and the draft's \<^verbatim>\<open>updatePosition\<close>
  scales that array in place (there is no clone): the stored velocity is multiplied by
  the time step, and no setter runs, so \<^verbatim>\<open>speed\<close> is not recomputed here.
\<close>

definition updatePosition_p3 :: "real \<Rightarrow> sphere_p3 \<Rightarrow> sphere_p3" where
  "updatePosition_p3 timeDelta s =
     (let s = updateVelocity_p3 timeDelta s;
          s = s\<lparr>velocity := vec3_scale (velocity s) timeDelta\<rparr>;
          s = s\<lparr>position := vec3_add (position s) (velocity s)\<rparr>
      in set_position_p3 (position s) s)"

definition handleCollisions_p3 :: "real \<Rightarrow> boundingRange \<Rightarrow> sphere_p3 \<Rightarrow> sphere_p3" where
  "handleCollisions_p3 timeDelta boundingRange s =
     (let x = v0 (position s); y = v1 (position s); z = v2 (position s);
          xVelocity = v0 (velocity s); yVelocity = v1 (velocity s); zVelocity = v2 (velocity s);
          xMin = range_min (xRange boundingRange) + radius s;
          xMax = range_max (xRange boundingRange) - radius s;
          yMin = range_min (yRange boundingRange) + radius s;
          yMax = range_max (yRange boundingRange) - radius s;
          zMin = range_min (zRange boundingRange) + radius s;
          zMax = range_max (zRange boundingRange) - radius s;
          (x, xVelocity) = (if x < xMin then (xMin, xVelocity * - 1) else (x, xVelocity));
          (x, xVelocity) = (if x > xMax then (xMax, xVelocity * - 1) else (x, xVelocity));
          (y, yVelocity) = (if y < yMin then (yMin, yVelocity * - 3) else (y, yVelocity));
          (y, yVelocity) = (if y > yMax then (yMax, yVelocity * - 1) else (y, yVelocity));
          (z, zVelocity) = (if z < zMin then (zMin, zVelocity * - 1) else (z, zVelocity));
          (z, zVelocity) = (if z > zMax then (zMax, zVelocity * - 1) else (z, zVelocity));
          s = set_position_p3 (vec3_fromValues x y z) s
      in set_velocity_p3 (vec3_fromValues xVelocity yVelocity zVelocity) s)"

definition tick_p3 :: "real \<Rightarrow> sphere_p3 \<Rightarrow> sphere_p3" where
  "tick_p3 timeDelta s =
     handleCollisions_p3 timeDelta defaultBoundingRange (updatePosition_p3 timeDelta s)"

section \<open>The physics engine (src/unnamed/part_000)\<close>

text \<open>
  \<^verbatim>\<open>PhysicsEngine\<close> holds a list of references to sphere objects and mutates the objects
  through them. The objects live in a store (a list indexed by reference); the engine
  holds the references in insertion order. \<^verbatim>\<open>tick\<close> calls the \<^verbatim>\<open>tick\<close> method of each
  listed object in turn; that method is a parameter, since the engine works with either
  sphere class. It returns the engine, which it does not assign to, and the new store.
  \<^verbatim>\<open>addSphere\<close> takes the reference of the sphere to add; its default argument is a
  sphere newly put into the store (\<open>addSphere_default\<close>).
\<close>

record physicsEngine =
  sphereList :: "nat list"

definition set_sphereList :: "nat list \<Rightarrow> physicsEngine \<Rightarrow> physicsEngine" where
  "set_sphereList l e = e\<lparr>sphereList := l\<rparr>"

definition PhysicsEngine :: physicsEngine where
  "PhysicsEngine = set_sphereList [] \<lparr>sphereList = []\<rparr>"

definition addSphere :: "nat \<Rightarrow> physicsEngine \<Rightarrow> physicsEngine" where
  "addSphere toAdd e = e\<lparr>sphereList := sphereList e @ [toAdd]\<rparr>"

definition addSphere_default :: "'s \<Rightarrow> physicsEngine \<Rightarrow> 's list \<Rightarrow> physicsEngine \<times> 's list" where
  "addSphere_default new_sphere e store = (addSphere (length store) e, store @ [new_sphere])"

definition resetSpheres :: "physicsEngine \<Rightarrow> physicsEngine" where
  "resetSpheres e = set_sphereList [] e"

primrec forEach_tick :: "(real \<Rightarrow> 's \<Rightarrow> 's) \<Rightarrow> real \<Rightarrow> nat list \<Rightarrow> 's list \<Rightarrow> 's list" where
  "forEach_tick sphere_tick timeDelta [] store = store"
| "forEach_tick sphere_tick timeDelta (r # rs) store =
     forEach_tick sphere_tick timeDelta rs
       (if r < length store then store[r := sphere_tick timeDelta (store ! r)] else store)"

definition PhysicsEngine_tick ::
  "(real \<Rightarrow> 's \<Rightarrow> 's) \<Rightarrow> real \<Rightarrow> physicsEngine \<Rightarrow> 's list \<Rightarrow> physicsEngine \<times> 's list" where
  "PhysicsEngine_tick sphere_tick timeDelta e store =
     (e, forEach_tick sphere_tick timeDelta (sphereList e) store)"

section \<open>Storage in single precision\<close>

text \<open>
  Writing a number into a \<^verbatim>\<open>Float32Array\<close> rounds it to the nearest single-precision value,
  a tie going to the even significand. \<open>float32\<close> is that rounding on the reals: a number
  of magnitude \<open>a\<close> and binary exponent \<open>e = \<lfloor>log 2 a\<rfloor>\<close> is rounded to a multiple of
  \<open>2 powr (e - 23)\<close> (24 significant bits); the exponent is at least \<open>- 126\<close>, below which
  the subnormal numbers are the multiples of \<open>2 powr (- 149)\<close>; the sign is kept.
  Magnitudes of \<open>2 powr 128\<close> and more, which the array turns into an infinity, are
  outside the model, as the infinities are throughout. \<open>stored\<close> is what the array holds
  of a computed triple.
\<close>

definition round_even :: "real \<Rightarrow> int" where
  "round_even y =
     (let f = \<lfloor>y\<rfloor>; d = y - of_int f
      in if d < 1 / 2 then f else if 1 / 2 < d then f + 1 else if even f then f else f + 1)"

definition float32_exponent :: "real \<Rightarrow> int" where
  "float32_exponent a = max \<lfloor>log 2 a\<rfloor> (- 126)"

definition float32_magnitude :: "real \<Rightarrow> real" where
  "float32_magnitude a =
     (let ulp = 2 powr (of_int (float32_exponent a) - 23)
      in of_int (round_even (a / ulp)) * ulp)"

definition float32 :: "real \<Rightarrow> real" where
  "float32 x = sgn x * float32_magnitude \<bar>x\<bar>"


section \<open>Notions used to state the properties\<close>

text \<open>
  One axis of \<^verbatim>\<open>handleCollisions\<close>: the two tests the method makes on a coordinate and its
  velocity component, in the order of the source. \<open>collide_axis\<close> is the axis of
  Sphere.js (\<open>\<le>\<close> and \<open>\<ge>\<close>, factor \<open>- 1\<close>); \<open>collide_axis_p3\<close> is the axis of the draft
  (\<open><\<close> and \<open>>\<close>, the factor of the lower face a parameter, since the draft multiplies by
  \<open>- 3\<close> at the lower face of the y axis). Lemmas \<open>handleCollisions_axes\<close> and
  \<open>handleCollisions_p3_axes\<close> prove that the methods are these three axes side by side.

  \<open>inset_min\<close> and \<open>inset_max\<close> are the bounds \<^verbatim>\<open>min + radius\<close> and \<^verbatim>\<open>max - radius\<close> of an
  axis; \<open>caches_p3\<close> says that the two cached squares of the draft agree with the fields
  they are computed from.
\<close>

definition collide_axis :: "real \<Rightarrow> real \<Rightarrow> real \<times> real \<Rightarrow> real \<times> real" where
  "collide_axis lo hi p =
     (let (x, v) = p;
          (x, v) = (if x \<le> lo then (lo, v * - 1) else (x, v));
          (x, v) = (if x \<ge> hi then (hi, v * - 1) else (x, v))
      in (x, v))"

definition collide_axis_p3 :: "real \<Rightarrow> real \<Rightarrow> real \<Rightarrow> real \<times> real \<Rightarrow> real \<times> real" where
  "collide_axis_p3 k lo hi p =
     (let (x, v) = p;
          (x, v) = (if x < lo then (lo, v * k) else (x, v));
          (x, v) = (if x > hi then (hi, v * - 1) else (x, v))
      in (x, v))"

definition inset_min :: "axisRange \<Rightarrow> real \<Rightarrow> real" where
  "inset_min a r = range_min a + r"

definition inset_max :: "axisRange \<Rightarrow> real \<Rightarrow> real" where
  "inset_max a r = range_max a - r"


definition within_inset :: "boundingRange \<Rightarrow> real \<Rightarrow> vec3 \<Rightarrow> bool" where
  "within_inset br r p \<longleftrightarrow>
     inset_min (xRange br) r \<le> v0 p \<and> v0 p \<le> inset_max (xRange br) r
     \<and> inset_min (yRange br) r \<le> v1 p \<and> v1 p \<le> inset_max (yRange br) r
     \<and> inset_min (zRange br) r \<le> v2 p \<and> v2 p \<le> inset_max (zRange br) r"

text \<open>
  The same for the components a \<^verbatim>\<open>Float32Array\<close> holds: the box against which stored
  components are compared has the two inset bounds of each axis rounded to single
  precision, as a coordinate set to a bound is when it is stored.
\<close>

definition within_stored_inset :: "boundingRange \<Rightarrow> real \<Rightarrow> vec3 \<Rightarrow> bool" where
  "within_stored_inset br r p \<longleftrightarrow>
     float32 (inset_min (xRange br) r) \<le> v0 p \<and> v0 p \<le> float32 (inset_max (xRange br) r)
     \<and> float32 (inset_min (yRange br) r) \<le> v1 p \<and> v1 p \<le> float32 (inset_max (yRange br) r)
     \<and> float32 (inset_min (zRange br) r) \<le> v2 p \<and> v2 p \<le> float32 (inset_max (zRange br) r)"

definition caches_p3 :: "sphere_p3 \<Rightarrow> bool" where
  "caches_p3 s \<longleftrightarrow> speedSq s = speed s * speed s \<and> radiusSq s = radius s * radius s"

text \<open>
  \<open>clamps\<close> says that a coordinate makes one of the two tests of Sphere.js succeed (it is
  at or beyond an inset bound); \<open>on_bound\<close> says that it equals an inset bound exactly.
\<close>

definition clamps :: "axisRange \<Rightarrow> real \<Rightarrow> real \<Rightarrow> bool" where
  "clamps a r x \<longleftrightarrow> x \<le> inset_min a r \<or> inset_max a r \<le> x"

definition on_bound :: "axisRange \<Rightarrow> real \<Rightarrow> real \<Rightarrow> bool" where
  "on_bound a r x \<longleftrightarrow> x = inset_min a r \<or> x = inset_max a r"

text \<open>
  The radius assignment as the specification words it: a radius \<open>r \<le> 0\<close> fails with
  \<open>InvalidParameter\<close>, any other radius is assigned. The assignment itself is a parameter
  (the radius setter of either class). The classes have no failure path, so their own
  setters return the new state directly; this definition is what they are compared with.
\<close>

datatype error = InvalidParameter

definition setRadius_spec :: "(real \<Rightarrow> 's \<Rightarrow> 's) \<Rightarrow> real \<Rightarrow> 's \<Rightarrow> error + 's" where
  "setRadius_spec assign r s = (if r \<le> 0 then Inl InvalidParameter else Inr (assign r s))"

section \<open>Properties\<close>

subsection \<open>Basic facts\<close>

lemmas vec3_defs = vec3_create_def vec3_fromValues_def vec3_clone_def vec3_add_def
  vec3_scale_def vec3_negate_def

lemmas setter_defs = set_radius_def set_position_def set_speed_def set_velocity_def
  set_color_def set_mass_def

lemmas setter_p3_defs = set_radius_p3_def set_position_p3_def set_speed_p3_def
  set_velocity_p3_def set_color_p3_def set_mass_p3_def

lemma vec3_normalize_zero: "vec3_normalize (0, 0, 0) = (0, 0, 0)"
  by (simp add: vec3_normalize_def)

lemma vec3_clone_id: "vec3_clone a = a"
  by (simp add: vec3_clone_def)

lemma vec3_length_nonneg: "0 \<le> vec3_length a"
  by (simp add: vec3_length_def)

lemma max_vec3_length: "max (vec3_length a) (- vec3_length a) = vec3_length a"
  using vec3_length_nonneg [of a] by simp

lemma vec3_length_axis:
  "vec3_length (x, 0, 0) = \<bar>x\<bar>"
  "vec3_length (0, y, 0) = \<bar>y\<bar>"
  "vec3_length (0, 0, z) = \<bar>z\<bar>"
  by (simp_all add: vec3_length_def)

lemma vec3_length_sq: "(vec3_length a)\<^sup>2 = v0 a * v0 a + v1 a * v1 a + v2 a * v2 a"
  by (simp add: vec3_length_def)

lemma vec3_length_zero_iff: "vec3_length a = 0 \<longleftrightarrow> a = (0, 0, 0)"
proof -
  have "v0 a * v0 a + v1 a * v1 a + v2 a * v2 a = 0 \<longleftrightarrow> v0 a = 0 \<and> v1 a = 0 \<and> v2 a = 0"
    by (simp add: add_nonneg_eq_0_iff)
  then show ?thesis
    by (simp add: vec3_length_def prod_eq_iff)
qed

lemma vec3_length_pos: "a \<noteq> (0, 0, 0) \<Longrightarrow> 0 < vec3_length a"
  using vec3_length_nonneg [of a] vec3_length_zero_iff [of a] by linarith

lemma vec3_length_scale: "vec3_length (vec3_scale a k) = \<bar>k\<bar> * vec3_length a"
proof -
  have "v0 a * k * (v0 a * k) + v1 a * k * (v1 a * k) + v2 a * k * (v2 a * k)
      = k\<^sup>2 * (v0 a * v0 a + v1 a * v1 a + v2 a * v2 a)"
    by (simp add: power2_eq_square algebra_simps)
  then show ?thesis
    by (simp add: vec3_length_def vec3_scale_def real_sqrt_mult)
qed

text \<open>
  \<^verbatim>\<open>vec3.normalize\<close> of a vector other than zero is the vector divided by its length, a
  vector of length one.
\<close>

lemma vec3_normalize_eq:
  "a \<noteq> (0, 0, 0) \<Longrightarrow> vec3_normalize a = vec3_scale a (1 / vec3_length a)"
proof -
  assume a: "a \<noteq> (0, 0, 0)"
  have "0 < (vec3_length a)\<^sup>2" using vec3_length_pos [OF a] by simp
  then have "0 < v0 a * v0 a + v1 a * v1 a + v2 a * v2 a" by (simp add: vec3_length_sq)
  then show ?thesis
    by (simp add: vec3_normalize_def vec3_scale_def vec3_length_def Let_def)
qed

lemma vec3_length_normalize: "a \<noteq> (0, 0, 0) \<Longrightarrow> vec3_length (vec3_normalize a) = 1"
  using vec3_length_pos [of a]
  by (simp add: vec3_normalize_eq vec3_length_scale)

lemma inset_default:
  "inset_min (xRange defaultBoundingRange) r = - 10 + r"
  "inset_max (xRange defaultBoundingRange) r = 10 - r"
  "inset_min (yRange defaultBoundingRange) r = - 10 + r"
  "inset_max (yRange defaultBoundingRange) r = 10 - r"
  "inset_min (zRange defaultBoundingRange) r = - 10 + r"
  "inset_max (zRange defaultBoundingRange) r = 10 - r"
  by (simp_all add: inset_min_def inset_max_def defaultBoundingRange_def createBoundingRange_def)


subsection \<open>Single precision\<close>


lemma round_even_of_int: "round_even (of_int n) = n"
  by (simp add: round_even_def Let_def)











lemma float32_minus: "float32 (- x) = - float32 x"
  by (simp add: float32_def sgn_minus)

lemma float32_exponent_eq:
  "2 powr (of_int e) \<le> a \<Longrightarrow> a < 2 powr (of_int e + 1) \<Longrightarrow> - 126 \<le> e \<Longrightarrow>
     float32_exponent a = e"
proof -
  assume h: "2 powr (of_int e) \<le> a" "a < 2 powr (of_int e + 1)" "- 126 \<le> e"
  have "0 < 2 powr (of_int e :: real)" by simp
  with h(1) have a: "0 < a" by linarith
  have "\<lfloor>log 2 a\<rfloor> = e"
    using floor_log_eq_powr_iff [of a 2 e] a h by simp
  with h(3) show ?thesis by (simp add: float32_exponent_def)
qed

lemma float32_magnitude_eq:
  assumes "2 powr (of_int e) \<le> a" "a < 2 powr (of_int e + 1)" "- 126 \<le> e"
  shows "float32_magnitude a =
           of_int (round_even (a / 2 powr (of_int e - 23))) * 2 powr (of_int e - 23)"
  by (simp add: float32_magnitude_def Let_def float32_exponent_eq [OF assms])

lemma float32_ulp_3: "2 powr (of_int 3 - 23 :: real) = 1 / 1048576"
proof -
  have "(of_int 3 - 23 :: real) = - 20" by simp
  then have "2 powr (of_int 3 - 23 :: real) = 2 powr (- 20)" by (simp only:)
  also have "\<dots> = 1 / 1048576" by (simp add: powr_minus inverse_eq_divide)
  finally show ?thesis .
qed

lemma round_even_49_5: "round_even (51380224 / 5) = 10276045"
proof -
  have f: "\<lfloor>51380224 / 5 :: real\<rfloor> = 10276044" by simp
  show ?thesis
    unfolding round_even_def Let_def f by simp
qed

lemma float32_magnitude_49_5: "float32_magnitude (49 / 5) = 10276045 / 1048576"
proof -
  have "float32_magnitude (49 / 5) =
      of_int (round_even ((49 / 5) / 2 powr (of_int 3 - 23))) * 2 powr (of_int 3 - 23)"
    by (rule float32_magnitude_eq) simp_all
  also have "(49 / 5) / 2 powr (of_int 3 - 23) = (51380224 / 5 :: real)"
    unfolding float32_ulp_3 by simp
  finally show ?thesis
    unfolding float32_ulp_3 round_even_49_5 by simp
qed

lemma float32_minus_49_5: "float32 (- (49 / 5)) = - (10276045 / 1048576)"
  by (simp add: float32_def float32_magnitude_49_5)

lemma float32_minus_49_5_below: "float32 (- 9.8) < - 9.8"
  by (simp add: float32_minus_49_5)

lemma float32_9: "float32 9 = 9" "float32 (- 9) = - 9"
proof -
  have "float32_magnitude 9 =
      of_int (round_even (9 / 2 powr (of_int 3 - 23))) * 2 powr (of_int 3 - 23)"
    by (rule float32_magnitude_eq) simp_all
  also have "9 / 2 powr (of_int 3 - 23) = (of_int 9437184 :: real)"
    unfolding float32_ulp_3 by simp
  finally have "float32_magnitude 9 = 9"
    unfolding float32_ulp_3 round_even_of_int by simp
  then show "float32 9 = 9" "float32 (- 9) = - 9"
    by (simp_all add: float32_def)
qed

subsection \<open>Sphere.js: the fields after each method\<close>

lemma Sphere_fields:
  "radius (Sphere r p v c) = r"
  "position (Sphere r p v c) = p"
  "velocity (Sphere r p v c) = v"
  "speed (Sphere r p v c) = vec3_length v"
  "color (Sphere r p v c) = c"
  "mass (Sphere r p v c) = 1"
  by (simp_all add: Sphere_def setter_defs max_vec3_length Let_def)

lemma speed_set_velocity: "speed (set_velocity v s) = vec3_length v"
  by (simp add: setter_defs max_vec3_length Let_def)

lemma velocity_set_velocity: "velocity (set_velocity v s) = v"
  by (simp add: setter_defs Let_def)

lemma velocity_updateVelocity:
  "velocity (updateVelocity dt s) =
     vec3_add (vec3_scale (velocity s) (dragFactor dt)) (vec3_scale (acceleration s) dt)"
  by (simp add: updateVelocity_def setter_defs Let_def)

lemma frame_updateVelocity:
  "position (updateVelocity dt s) = position s"
  "radius (updateVelocity dt s) = radius s"
  "mass (updateVelocity dt s) = mass s"
  "color (updateVelocity dt s) = color s"
  by (simp_all add: updateVelocity_def setter_defs Let_def)

lemma speed_updateVelocity:
  "speed (updateVelocity dt s) = vec3_length (velocity (updateVelocity dt s))"
  by (simp add: updateVelocity_def speed_set_velocity velocity_set_velocity Let_def)

lemma velocity_updatePosition: "velocity (updatePosition dt s) = velocity (updateVelocity dt s)"
  by (simp add: updatePosition_def setter_defs Let_def)

lemma position_updatePosition:
  "position (updatePosition dt s) =
     vec3_add (position s) (vec3_scale (velocity (updateVelocity dt s)) dt)"
  by (simp add: updatePosition_def setter_defs frame_updateVelocity vec3_clone_id Let_def)

lemma frame_updatePosition:
  "radius (updatePosition dt s) = radius s"
  "mass (updatePosition dt s) = mass s"
  "color (updatePosition dt s) = color s"
  "speed (updatePosition dt s) = speed (updateVelocity dt s)"
  by (simp_all add: updatePosition_def setter_defs frame_updateVelocity Let_def)

lemma acceleration_explicit:
  "mass s \<noteq> 0 \<Longrightarrow> acceleration s = (0, GRAVITY, 0)"
  by (simp add: acceleration_def gravityForce_def vec3_defs Let_def)

lemma updateVelocity_explicit:
  "mass s \<noteq> 0 \<Longrightarrow>
     velocity (updateVelocity dt s) =
       vec3_add (vec3_scale (velocity s) (0.9 powr dt)) (0, GRAVITY * dt, 0)"
  by (simp add: velocity_updateVelocity acceleration_explicit dragFactor_def vec3_scale_def)

lemma velocity_updatePosition_explicit:
  "velocity (updatePosition dt s) =
     (v0 (velocity s) * 0.9 powr dt + v0 (acceleration s) * dt,
      v1 (velocity s) * 0.9 powr dt + v1 (acceleration s) * dt,
      v2 (velocity s) * 0.9 powr dt + v2 (acceleration s) * dt)"
  by (simp add: velocity_updatePosition velocity_updateVelocity dragFactor_def vec3_defs)

lemma updatePosition_explicit:
  "mass s \<noteq> 0 \<Longrightarrow>
     velocity (updatePosition dt s) =
       (v0 (velocity s) * 0.9 powr dt, v1 (velocity s) * 0.9 powr dt + GRAVITY * dt,
        v2 (velocity s) * 0.9 powr dt)"
  "mass s \<noteq> 0 \<Longrightarrow>
     position (updatePosition dt s) =
       (v0 (position s) + v0 (velocity s) * 0.9 powr dt * dt,
        v1 (position s) + (v1 (velocity s) * 0.9 powr dt + GRAVITY * dt) * dt,
        v2 (position s) + v2 (velocity s) * 0.9 powr dt * dt)"
  by (simp_all add: position_updatePosition velocity_updatePosition [symmetric]
      velocity_updatePosition_explicit acceleration_explicit vec3_defs)

lemma updatePosition_at_rest:
  "velocity s = (0, 0, 0) \<Longrightarrow> mass s \<noteq> 0 \<Longrightarrow>
     velocity (updatePosition dt s) = (0, GRAVITY * dt, 0)"
  "velocity s = (0, 0, 0) \<Longrightarrow> mass s \<noteq> 0 \<Longrightarrow>
     position (updatePosition dt s) = vec3_add (position s) (0, GRAVITY * dt * dt, 0)"
  by (simp_all add: updatePosition_explicit vec3_add_def)

lemma updatePosition_zero:
  "velocity (updatePosition 0 s) = velocity s"
  "position (updatePosition 0 s) = position s"
  by (simp_all add: position_updatePosition velocity_updatePosition [symmetric]
      velocity_updatePosition_explicit vec3_defs)

lemma handleCollisions_shape:
  "\<exists>p v. handleCollisions dt br s = set_velocity v (set_position p s)"
  unfolding handleCollisions_def Let_def split_beta
  by (intro exI) (rule refl)

lemma frame_handleCollisions:
  "radius (handleCollisions dt br s) = radius s"
  "mass (handleCollisions dt br s) = mass s"
  "color (handleCollisions dt br s) = color s"
proof -
  obtain p v where "handleCollisions dt br s = set_velocity v (set_position p s)"
    using handleCollisions_shape by blast
  then show "radius (handleCollisions dt br s) = radius s"
    "mass (handleCollisions dt br s) = mass s"
    "color (handleCollisions dt br s) = color s"
    by (simp_all add: setter_defs Let_def)
qed

lemma speed_handleCollisions:
  "speed (handleCollisions dt br s) = vec3_length (velocity (handleCollisions dt br s))"
proof -
  obtain p v where "handleCollisions dt br s = set_velocity v (set_position p s)"
    using handleCollisions_shape by blast
  then show ?thesis
    by (simp add: speed_set_velocity velocity_set_velocity)
qed

lemma frame_tick:
  "radius (tick dt s) = radius s"
  "mass (tick dt s) = mass s"
  "color (tick dt s) = color s"
  by (simp_all add: tick_def frame_handleCollisions frame_updatePosition)

lemma funpow_tick_radius: "radius ((tick dt ^^ n) s) = radius s"
  by (induction n) (simp_all add: frame_tick)

lemma funpow_tick_mass: "mass ((tick dt ^^ n) s) = mass s"
  by (induction n) (simp_all add: frame_tick)

subsection \<open>The draft: the fields after each method\<close>

lemma Sphere_p3_fields:
  "radius (Sphere_p3 r sp p v) = r"
  "position (Sphere_p3 r sp p v) = p"
  "velocity (Sphere_p3 r sp p v) = v"
  "speed (Sphere_p3 r sp p v) = 0"
  "mass (Sphere_p3 r sp p v) = r * r * 0.5"
  "color (Sphere_p3 r sp p v) =
     (255 * (r * r * 0.5), 255 * (1 - \<bar>1 - 2 * (r * r * 0.5)\<bar>), 255 * (1 - r * r * 0.5))"
  by (simp_all add: Sphere_p3_def setter_p3_defs vec3_defs vec3_length_def Let_def)

lemma Sphere_p3_speedSq: "speedSq (Sphere_p3 r sp p v) = 0"
  by (simp add: Sphere_p3_def setter_p3_defs vec3_defs vec3_length_def Let_def)

lemma set_radius_p3_fields:
  "radius (set_radius_p3 r s) = r"
  "mass (set_radius_p3 r s) = r * r * 0.5"
  "color (set_radius_p3 r s) =
     (255 * (r * r * 0.5), 255 * (1 - \<bar>1 - 2 * (r * r * 0.5)\<bar>), 255 * (1 - r * r * 0.5))"
  by (simp_all add: setter_p3_defs vec3_defs Let_def)

lemma speed_set_velocity_p3: "speed (set_velocity_p3 v s) = vec3_length v"
  by (simp add: setter_p3_defs max_vec3_length Let_def)

lemma velocity_set_velocity_p3: "velocity (set_velocity_p3 v s) = v"
  by (simp add: setter_p3_defs Let_def)

lemma dragForce_p3_formula:
  "dragForce_p3 s =
     vec3_scale (vec3_normalize (velocity s)) (- (HALFCDRHO * speedSq s * radiusSq s))"
  by (simp add: dragForce_p3_def vec3_clone_id vec3_negate_def vec3_scale_def Let_def)

lemma dragForce_p3_zero_velocity: "velocity s = (0, 0, 0) \<Longrightarrow> dragForce_p3 s = (0, 0, 0)"
  by (simp add: dragForce_p3_formula vec3_normalize_zero vec3_scale_def)

lemma dragForce_p3_zero_speedSq: "speedSq s = 0 \<Longrightarrow> dragForce_p3 s = (0, 0, 0)"
  by (simp add: dragForce_p3_formula vec3_scale_def)

lemma acceleration_p3_no_drag:
  "dragForce_p3 s = (0, 0, 0) \<Longrightarrow> mass s \<noteq> 0 \<Longrightarrow> acceleration_p3 s = (0, - GRAVITY_p3, 0)"
  by (simp add: acceleration_p3_def gravityForce_p3_def vec3_defs Let_def)

lemma velocity_updateVelocity_p3:
  "velocity (updateVelocity_p3 dt s) = vec3_add (velocity s) (vec3_scale (acceleration_p3 s) dt)"
  by (simp add: updateVelocity_p3_def setter_p3_defs Let_def)

lemma position_updateVelocity_p3: "position (updateVelocity_p3 dt s) = position s"
  by (simp add: updateVelocity_p3_def setter_p3_defs Let_def)

lemma frame_updateVelocity_p3:
  "radius (updateVelocity_p3 dt s) = radius s"
  "mass (updateVelocity_p3 dt s) = mass s"
  "color (updateVelocity_p3 dt s) = color s"
  by (simp_all add: updateVelocity_p3_def setter_p3_defs Let_def)

lemma speed_updateVelocity_p3:
  "speed (updateVelocity_p3 dt s) = vec3_length (velocity (updateVelocity_p3 dt s))"
  by (simp add: updateVelocity_p3_def speed_set_velocity_p3 velocity_set_velocity_p3 Let_def)

lemma updateVelocity_p3_no_drag:
  "speedSq s = 0 \<Longrightarrow> mass s \<noteq> 0 \<Longrightarrow>
     velocity (updateVelocity_p3 dt s) = vec3_add (velocity s) (0, - GRAVITY_p3 * dt, 0)"
  by (simp add: velocity_updateVelocity_p3 acceleration_p3_no_drag dragForce_p3_zero_speedSq
      vec3_scale_def)

lemma position_updatePosition_p3:
  "position (updatePosition_p3 dt s) =
     vec3_add (position s) (vec3_scale (velocity (updateVelocity_p3 dt s)) dt)"
  by (simp add: updatePosition_p3_def setter_p3_defs position_updateVelocity_p3 Let_def)

lemma velocity_updatePosition_p3:
  "velocity (updatePosition_p3 dt s) = vec3_scale (velocity (updateVelocity_p3 dt s)) dt"
  by (simp add: updatePosition_p3_def setter_p3_defs Let_def)

text \<open>
  The draft's \<^verbatim>\<open>updatePosition\<close> leaves the stored velocity multiplied by the time step
  (it scales the array it got from \<^verbatim>\<open>updateVelocity\<close> without cloning it).
\<close>

lemma updatePosition_p3_scales_velocity:
  "velocity (updatePosition_p3 dt s) =
     vec3_scale (vec3_add (velocity s) (vec3_scale (acceleration_p3 s) dt)) dt"
  by (simp add: velocity_updatePosition_p3 velocity_updateVelocity_p3)

lemma frame_updatePosition_p3:
  "radius (updatePosition_p3 dt s) = radius s"
  "mass (updatePosition_p3 dt s) = mass s"
  "color (updatePosition_p3 dt s) = color s"
  "speed (updatePosition_p3 dt s) = speed (updateVelocity_p3 dt s)"
  by (simp_all add: updatePosition_p3_def setter_p3_defs frame_updateVelocity_p3 Let_def)

lemma first_step_p3:
  "r \<noteq> 0 \<Longrightarrow>
     velocity (updateVelocity_p3 dt (Sphere_p3 r sp p v)) = vec3_add v (0, - GRAVITY_p3 * dt, 0)"
  "r \<noteq> 0 \<Longrightarrow>
     velocity (updatePosition_p3 dt (Sphere_p3 r sp p v)) =
       vec3_scale (vec3_add v (0, - GRAVITY_p3 * dt, 0)) dt"
  "r \<noteq> 0 \<Longrightarrow>
     position (updatePosition_p3 dt (Sphere_p3 r sp p v)) =
       vec3_add p (vec3_scale (vec3_add v (0, - GRAVITY_p3 * dt, 0)) dt)"
  by (simp_all add: velocity_updatePosition_p3 position_updatePosition_p3
      updateVelocity_p3_no_drag Sphere_p3_speedSq Sphere_p3_fields)

lemma handleCollisions_p3_shape:
  "\<exists>p v. handleCollisions_p3 dt br s = set_velocity_p3 v (set_position_p3 p s)"
  unfolding handleCollisions_p3_def Let_def split_beta
  by (intro exI) (rule refl)

lemma frame_handleCollisions_p3:
  "radius (handleCollisions_p3 dt br s) = radius s"
  "mass (handleCollisions_p3 dt br s) = mass s"
  "color (handleCollisions_p3 dt br s) = color s"
proof -
  obtain p v where "handleCollisions_p3 dt br s = set_velocity_p3 v (set_position_p3 p s)"
    using handleCollisions_p3_shape by blast
  then show "radius (handleCollisions_p3 dt br s) = radius s"
    "mass (handleCollisions_p3 dt br s) = mass s"
    "color (handleCollisions_p3 dt br s) = color s"
    by (simp_all add: setter_p3_defs Let_def)
qed

lemma speed_handleCollisions_p3:
  "speed (handleCollisions_p3 dt br s) = vec3_length (velocity (handleCollisions_p3 dt br s))"
proof -
  obtain p v where "handleCollisions_p3 dt br s = set_velocity_p3 v (set_position_p3 p s)"
    using handleCollisions_p3_shape by blast
  then show ?thesis
    by (simp add: speed_set_velocity_p3 velocity_set_velocity_p3)
qed

lemma frame_tick_p3:
  "radius (tick_p3 dt s) = radius s"
  "mass (tick_p3 dt s) = mass s"
  "color (tick_p3 dt s) = color s"
  by (simp_all add: tick_p3_def frame_handleCollisions_p3 frame_updatePosition_p3)

lemma caches_p3_Sphere_p3: "caches_p3 (Sphere_p3 r sp p v)"
  by (simp add: caches_p3_def Sphere_p3_def setter_p3_defs Let_def)

lemma caches_p3_set_radius_p3: "caches_p3 s \<Longrightarrow> caches_p3 (set_radius_p3 r s)"
  by (simp add: caches_p3_def setter_p3_defs Let_def)

lemma caches_p3_set_velocity_p3: "caches_p3 s \<Longrightarrow> caches_p3 (set_velocity_p3 v s)"
  by (simp add: caches_p3_def setter_p3_defs Let_def)

lemma caches_p3_updatePosition_p3: "caches_p3 s \<Longrightarrow> caches_p3 (updatePosition_p3 dt s)"
  by (simp add: caches_p3_def updatePosition_p3_def updateVelocity_p3_def setter_p3_defs Let_def)

lemma caches_p3_handleCollisions_p3: "caches_p3 s \<Longrightarrow> caches_p3 (handleCollisions_p3 dt br s)"
proof -
  assume c: "caches_p3 s"
  obtain p v where "handleCollisions_p3 dt br s = set_velocity_p3 v (set_position_p3 p s)"
    using handleCollisions_p3_shape by blast
  with c show ?thesis
    by (simp add: caches_p3_def setter_p3_defs Let_def)
qed

lemma caches_p3_tick_p3: "caches_p3 s \<Longrightarrow> caches_p3 (tick_p3 dt s)"
  by (simp add: tick_p3_def caches_p3_updatePosition_p3 caches_p3_handleCollisions_p3)

lemma speed_tick_p3: "speed (tick_p3 dt s) = vec3_length (velocity (tick_p3 dt s))"
  by (simp add: tick_p3_def speed_handleCollisions_p3)

text \<open>
  Where the cached speed is the length of the velocity, the drag force of the draft is the
  velocity scaled by \<open>- HALFCDRHO \<cdot> |velocity| \<cdot> radius\<^sup>2\<close>, of magnitude
  \<open>HALFCDRHO \<cdot> |velocity|\<^sup>2 \<cdot> radius\<^sup>2\<close>.
\<close>

lemma dragForce_p3_fresh:
  assumes "caches_p3 s" and "speed s = vec3_length (velocity s)"
  shows "dragForce_p3 s =
           vec3_scale (velocity s) (- (HALFCDRHO * vec3_length (velocity s) * (radius s)\<^sup>2))"
    and "vec3_length (dragForce_p3 s) =
           HALFCDRHO * (vec3_length (velocity s))\<^sup>2 * (radius s)\<^sup>2"
proof -
  from assms have sq: "speedSq s = (vec3_length (velocity s))\<^sup>2" and rq: "radiusSq s = (radius s)\<^sup>2"
    by (simp_all add: caches_p3_def power2_eq_square)
  show d: "dragForce_p3 s =
      vec3_scale (velocity s) (- (HALFCDRHO * vec3_length (velocity s) * (radius s)\<^sup>2))"
  proof (cases "velocity s = (0, 0, 0)")
    case True
    then show ?thesis
      by (simp add: dragForce_p3_zero_velocity vec3_scale_def)
  next
    case False
    then have "vec3_length (velocity s) \<noteq> 0" by (simp add: vec3_length_zero_iff)
    then show ?thesis
      by (simp add: dragForce_p3_formula sq rq vec3_normalize_eq [OF False] vec3_scale_def
          power2_eq_square)
  qed
  have k: "0 \<le> HALFCDRHO * vec3_length (velocity s) * (radius s)\<^sup>2"
    by (simp add: HALFCDRHO_def vec3_length_nonneg)
  show "vec3_length (dragForce_p3 s) = HALFCDRHO * (vec3_length (velocity s))\<^sup>2 * (radius s)\<^sup>2"
    unfolding d vec3_length_scale using k by (simp add: power2_eq_square)
qed

subsection \<open>Collisions, one axis at a time\<close>

lemma handleCollisions_axes:
  "handleCollisions dt br s =
     (let cx = collide_axis (range_min (xRange br) + radius s) (range_max (xRange br) - radius s)
                 (v0 (position s), v0 (velocity s));
          cy = collide_axis (range_min (yRange br) + radius s) (range_max (yRange br) - radius s)
                 (v1 (position s), v1 (velocity s));
          cz = collide_axis (range_min (zRange br) + radius s) (range_max (zRange br) - radius s)
                 (v2 (position s), v2 (velocity s))
      in set_velocity (vec3_fromValues (snd cx) (snd cy) (snd cz))
           (set_position (vec3_fromValues (fst cx) (fst cy) (fst cz)) s))"
  unfolding handleCollisions_def collide_axis_def Let_def split_beta fst_conv snd_conv
  by (rule refl)

lemma handleCollisions_p3_axes:
  "handleCollisions_p3 dt br s =
     (let cx = collide_axis_p3 (- 1) (range_min (xRange br) + radius s) (range_max (xRange br) - radius s)
                 (v0 (position s), v0 (velocity s));
          cy = collide_axis_p3 (- 3) (range_min (yRange br) + radius s) (range_max (yRange br) - radius s)
                 (v1 (position s), v1 (velocity s));
          cz = collide_axis_p3 (- 1) (range_min (zRange br) + radius s) (range_max (zRange br) - radius s)
                 (v2 (position s), v2 (velocity s))
      in set_velocity_p3 (vec3_fromValues (snd cx) (snd cy) (snd cz))
           (set_position_p3 (vec3_fromValues (fst cx) (fst cy) (fst cz)) s))"
  unfolding handleCollisions_p3_def collide_axis_p3_def Let_def split_beta fst_conv snd_conv
  by (rule refl)

lemma position_handleCollisions:
  "v0 (position (handleCollisions dt br s)) =
     fst (collide_axis (inset_min (xRange br) (radius s)) (inset_max (xRange br) (radius s))
            (v0 (position s), v0 (velocity s)))"
  "v1 (position (handleCollisions dt br s)) =
     fst (collide_axis (inset_min (yRange br) (radius s)) (inset_max (yRange br) (radius s))
            (v1 (position s), v1 (velocity s)))"
  "v2 (position (handleCollisions dt br s)) =
     fst (collide_axis (inset_min (zRange br) (radius s)) (inset_max (zRange br) (radius s))
            (v2 (position s), v2 (velocity s)))"
  by (simp_all add: handleCollisions_axes setter_defs vec3_fromValues_def inset_min_def
      inset_max_def Let_def)

lemma velocity_handleCollisions:
  "v0 (velocity (handleCollisions dt br s)) =
     snd (collide_axis (inset_min (xRange br) (radius s)) (inset_max (xRange br) (radius s))
            (v0 (position s), v0 (velocity s)))"
  "v1 (velocity (handleCollisions dt br s)) =
     snd (collide_axis (inset_min (yRange br) (radius s)) (inset_max (yRange br) (radius s))
            (v1 (position s), v1 (velocity s)))"
  "v2 (velocity (handleCollisions dt br s)) =
     snd (collide_axis (inset_min (zRange br) (radius s)) (inset_max (zRange br) (radius s))
            (v2 (position s), v2 (velocity s)))"
  by (simp_all add: handleCollisions_axes setter_defs vec3_fromValues_def inset_min_def
      inset_max_def Let_def)

lemma position_handleCollisions_p3:
  "v0 (position (handleCollisions_p3 dt br s)) =
     fst (collide_axis_p3 (- 1) (inset_min (xRange br) (radius s)) (inset_max (xRange br) (radius s))
            (v0 (position s), v0 (velocity s)))"
  "v1 (position (handleCollisions_p3 dt br s)) =
     fst (collide_axis_p3 (- 3) (inset_min (yRange br) (radius s)) (inset_max (yRange br) (radius s))
            (v1 (position s), v1 (velocity s)))"
  "v2 (position (handleCollisions_p3 dt br s)) =
     fst (collide_axis_p3 (- 1) (inset_min (zRange br) (radius s)) (inset_max (zRange br) (radius s))
            (v2 (position s), v2 (velocity s)))"
  by (simp_all add: handleCollisions_p3_axes setter_p3_defs vec3_fromValues_def inset_min_def
      inset_max_def Let_def)

lemma velocity_handleCollisions_p3:
  "v0 (velocity (handleCollisions_p3 dt br s)) =
     snd (collide_axis_p3 (- 1) (inset_min (xRange br) (radius s)) (inset_max (xRange br) (radius s))
            (v0 (position s), v0 (velocity s)))"
  "v1 (velocity (handleCollisions_p3 dt br s)) =
     snd (collide_axis_p3 (- 3) (inset_min (yRange br) (radius s)) (inset_max (yRange br) (radius s))
            (v1 (position s), v1 (velocity s)))"
  "v2 (velocity (handleCollisions_p3 dt br s)) =
     snd (collide_axis_p3 (- 1) (inset_min (zRange br) (radius s)) (inset_max (zRange br) (radius s))
            (v2 (position s), v2 (velocity s)))"
  by (simp_all add: handleCollisions_p3_axes setter_p3_defs vec3_fromValues_def inset_min_def
      inset_max_def Let_def)



lemma collide_axis_velocity:
  "lo < hi \<Longrightarrow>
     snd (collide_axis lo hi (x, v)) = (if x \<le> lo \<or> x \<ge> hi then - v else v)"
  by (simp add: collide_axis_def Let_def)

lemma collide_axis_position:
  "lo < hi \<Longrightarrow>
     fst (collide_axis lo hi (x, v)) = (if x \<le> lo then lo else if x \<ge> hi then hi else x)"
  by (simp add: collide_axis_def Let_def)



lemma velocity_handleCollisions_if:
  "inset_min (xRange br) (radius s) < inset_max (xRange br) (radius s) \<Longrightarrow>
     v0 (velocity (handleCollisions dt br s)) =
       (if clamps (xRange br) (radius s) (v0 (position s))
        then - v0 (velocity s) else v0 (velocity s))"
  "inset_min (yRange br) (radius s) < inset_max (yRange br) (radius s) \<Longrightarrow>
     v1 (velocity (handleCollisions dt br s)) =
       (if clamps (yRange br) (radius s) (v1 (position s))
        then - v1 (velocity s) else v1 (velocity s))"
  "inset_min (zRange br) (radius s) < inset_max (zRange br) (radius s) \<Longrightarrow>
     v2 (velocity (handleCollisions dt br s)) =
       (if clamps (zRange br) (radius s) (v2 (position s))
        then - v2 (velocity s) else v2 (velocity s))"
  by (simp_all add: velocity_handleCollisions collide_axis_velocity clamps_def)

lemma position_handleCollisions_rest:
  "inset_min (xRange br) (radius s) < inset_max (xRange br) (radius s) \<Longrightarrow>
     v0 (position s) = inset_min (xRange br) (radius s)
       \<or> v0 (position s) = inset_max (xRange br) (radius s) \<Longrightarrow>
     v0 (position (handleCollisions dt br s)) = v0 (position s)"
  "inset_min (yRange br) (radius s) < inset_max (yRange br) (radius s) \<Longrightarrow>
     v1 (position s) = inset_min (yRange br) (radius s)
       \<or> v1 (position s) = inset_max (yRange br) (radius s) \<Longrightarrow>
     v1 (position (handleCollisions dt br s)) = v1 (position s)"
  "inset_min (zRange br) (radius s) < inset_max (zRange br) (radius s) \<Longrightarrow>
     v2 (position s) = inset_min (zRange br) (radius s)
       \<or> v2 (position s) = inset_max (zRange br) (radius s) \<Longrightarrow>
     v2 (position (handleCollisions dt br s)) = v2 (position s)"
  by (auto simp add: position_handleCollisions collide_axis_position)

text \<open>One axis of a tick whose move leaves the coordinate on a bound.\<close>

lemma tick_on_bound:
  assumes "radius s < 10"
  shows "v0 (position (updatePosition dt s)) = inset_min (xRange defaultBoundingRange) (radius s)
           \<or> v0 (position (updatePosition dt s)) = inset_max (xRange defaultBoundingRange) (radius s)
         \<Longrightarrow> v0 (velocity (tick dt s)) = - v0 (velocity (updatePosition dt s))
             \<and> v0 (position (tick dt s)) = v0 (position (updatePosition dt s))"
    and "v1 (position (updatePosition dt s)) = inset_min (yRange defaultBoundingRange) (radius s)
           \<or> v1 (position (updatePosition dt s)) = inset_max (yRange defaultBoundingRange) (radius s)
         \<Longrightarrow> v1 (velocity (tick dt s)) = - v1 (velocity (updatePosition dt s))
             \<and> v1 (position (tick dt s)) = v1 (position (updatePosition dt s))"
    and "v2 (position (updatePosition dt s)) = inset_min (zRange defaultBoundingRange) (radius s)
           \<or> v2 (position (updatePosition dt s)) = inset_max (zRange defaultBoundingRange) (radius s)
         \<Longrightarrow> v2 (velocity (tick dt s)) = - v2 (velocity (updatePosition dt s))
             \<and> v2 (position (tick dt s)) = v2 (position (updatePosition dt s))"
proof -
  let ?u = "updatePosition dt s"
  have r: "radius ?u = radius s" by (simp add: frame_updatePosition)
  have lt: "inset_min (xRange defaultBoundingRange) (radius ?u) < inset_max (xRange defaultBoundingRange) (radius ?u)"
    "inset_min (yRange defaultBoundingRange) (radius ?u) < inset_max (yRange defaultBoundingRange) (radius ?u)"
    "inset_min (zRange defaultBoundingRange) (radius ?u) < inset_max (zRange defaultBoundingRange) (radius ?u)"
    using assms by (simp_all add: r inset_default)
  show "v0 (position ?u) = inset_min (xRange defaultBoundingRange) (radius s)
           \<or> v0 (position ?u) = inset_max (xRange defaultBoundingRange) (radius s)
         \<Longrightarrow> v0 (velocity (tick dt s)) = - v0 (velocity ?u)
             \<and> v0 (position (tick dt s)) = v0 (position ?u)"
    using velocity_handleCollisions_if(1) [OF lt(1), of dt]
      position_handleCollisions_rest(1) [OF lt(1), of dt] assms
    by (auto simp add: tick_def r clamps_def inset_default)
  show "v1 (position ?u) = inset_min (yRange defaultBoundingRange) (radius s)
           \<or> v1 (position ?u) = inset_max (yRange defaultBoundingRange) (radius s)
         \<Longrightarrow> v1 (velocity (tick dt s)) = - v1 (velocity ?u)
             \<and> v1 (position (tick dt s)) = v1 (position ?u)"
    using velocity_handleCollisions_if(2) [OF lt(2), of dt]
      position_handleCollisions_rest(2) [OF lt(2), of dt] assms
    by (auto simp add: tick_def r clamps_def inset_default)
  show "v2 (position ?u) = inset_min (zRange defaultBoundingRange) (radius s)
           \<or> v2 (position ?u) = inset_max (zRange defaultBoundingRange) (radius s)
         \<Longrightarrow> v2 (velocity (tick dt s)) = - v2 (velocity ?u)
             \<and> v2 (position (tick dt s)) = v2 (position ?u)"
    using velocity_handleCollisions_if(3) [OF lt(3), of dt]
      position_handleCollisions_rest(3) [OF lt(3), of dt] assms
    by (auto simp add: tick_def r clamps_def inset_default)
qed

lemma resting_x:
  assumes "radius s < 10" "on_bound (xRange defaultBoundingRange) (radius s) (v0 (position s))"
  shows "v0 (position ((tick 0 ^^ n) s)) = v0 (position s)
         \<and> v0 (velocity ((tick 0 ^^ n) s)) = (- 1) ^ n * v0 (velocity s)"
proof (induction n)
  case 0
  show ?case by simp
next
  case (Suc n)
  let ?t = "(tick 0 ^^ n) s"
  have r: "radius ?t < 10" using assms(1) by (simp add: funpow_tick_radius)
  have b: "v0 (position (updatePosition 0 ?t)) = inset_min (xRange defaultBoundingRange) (radius ?t)
           \<or> v0 (position (updatePosition 0 ?t)) = inset_max (xRange defaultBoundingRange) (radius ?t)"
    using assms(2) Suc by (simp add: updatePosition_zero funpow_tick_radius on_bound_def)
  from tick_on_bound(1) [OF r b] Suc show ?case
    by (simp add: updatePosition_zero)
qed

lemma resting_y:
  assumes "radius s < 10" "on_bound (yRange defaultBoundingRange) (radius s) (v1 (position s))"
  shows "v1 (position ((tick 0 ^^ n) s)) = v1 (position s)
         \<and> v1 (velocity ((tick 0 ^^ n) s)) = (- 1) ^ n * v1 (velocity s)"
proof (induction n)
  case 0
  show ?case by simp
next
  case (Suc n)
  let ?t = "(tick 0 ^^ n) s"
  have r: "radius ?t < 10" using assms(1) by (simp add: funpow_tick_radius)
  have b: "v1 (position (updatePosition 0 ?t)) = inset_min (yRange defaultBoundingRange) (radius ?t)
           \<or> v1 (position (updatePosition 0 ?t)) = inset_max (yRange defaultBoundingRange) (radius ?t)"
    using assms(2) Suc by (simp add: updatePosition_zero funpow_tick_radius on_bound_def)
  from tick_on_bound(2) [OF r b] Suc show ?case
    by (simp add: updatePosition_zero)
qed

lemma resting_z:
  assumes "radius s < 10" "on_bound (zRange defaultBoundingRange) (radius s) (v2 (position s))"
  shows "v2 (position ((tick 0 ^^ n) s)) = v2 (position s)
         \<and> v2 (velocity ((tick 0 ^^ n) s)) = (- 1) ^ n * v2 (velocity s)"
proof (induction n)
  case 0
  show ?case by simp
next
  case (Suc n)
  let ?t = "(tick 0 ^^ n) s"
  have r: "radius ?t < 10" using assms(1) by (simp add: funpow_tick_radius)
  have b: "v2 (position (updatePosition 0 ?t)) = inset_min (zRange defaultBoundingRange) (radius ?t)
           \<or> v2 (position (updatePosition 0 ?t)) = inset_max (zRange defaultBoundingRange) (radius ?t)"
    using assms(2) Suc by (simp add: updatePosition_zero funpow_tick_radius on_bound_def)
  from tick_on_bound(3) [OF r b] Suc show ?case
    by (simp add: updatePosition_zero)
qed

subsection \<open>The drag force (claim C1)\<close>

text \<open>
  Claim C1, as amended. The draft is the class whose \<^verbatim>\<open>tick\<close> computes a drag force. For
  every state whose cached squares are those of its speed and radius (every state the
  constructor and the methods produce, lemmas \<open>caches_p3_Sphere_p3\<close> to \<open>caches_p3_tick_p3\<close>)
  that force is \<open>- k \<cdot> speed\<^sup>2 \<cdot> radius\<^sup>2 \<cdot> normalize velocity\<close> with the constant
  \<open>k = HALFCDRHO\<close>, where \<open>speed\<close> is the cached field and the normalized velocity, for a
  velocity other than zero, is the velocity divided by its length, a vector of length one.
  The cached speed is the length of the velocity after every assignment of the velocity
  and after every tick; in such a state the force is the velocity scaled by
  \<open>- k \<cdot> |velocity| \<cdot> radius\<^sup>2\<close> and has the magnitude \<open>k \<cdot> |velocity|\<^sup>2 \<cdot> radius\<^sup>2\<close>. When the
  cached speed is zero, and also when the velocity is the zero vector, the drag force is
  the zero vector: normalizing meets no division, and with a nonzero mass the acceleration,
  the updated velocity and the updated position are the values gravity alone gives.

  Sphere.js computes no drag force: with a nonzero mass its acceleration is gravity alone,
  and its velocity update multiplies the velocity by \<^verbatim>\<open>dragFactor\<close>, \<open>0.9 powr dt\<close>, before
  adding the acceleration times the time step; from rest its step has the values gravity
  alone gives.
\<close>

theorem dragForce_p3_quadratic:
  assumes "caches_p3 s"
  shows "dragForce_p3 s =
           vec3_scale (vec3_normalize (velocity s))
             (- (HALFCDRHO * (speed s)\<^sup>2 * (radius s)\<^sup>2))
         \<and> (velocity s \<noteq> (0, 0, 0) \<longrightarrow>
              vec3_normalize (velocity s) = vec3_scale (velocity s) (1 / vec3_length (velocity s))
              \<and> vec3_length (vec3_normalize (velocity s)) = 1)
         \<and> speed (set_velocity_p3 v s) = vec3_length (velocity (set_velocity_p3 v s))
         \<and> caches_p3 (set_velocity_p3 v s)
         \<and> speed (tick_p3 dt s) = vec3_length (velocity (tick_p3 dt s))
         \<and> caches_p3 (tick_p3 dt s)
         \<and> (speed s = vec3_length (velocity s) \<longrightarrow>
              dragForce_p3 s =
                vec3_scale (velocity s) (- (HALFCDRHO * vec3_length (velocity s) * (radius s)\<^sup>2))
              \<and> vec3_length (dragForce_p3 s) =
                  HALFCDRHO * (vec3_length (velocity s))\<^sup>2 * (radius s)\<^sup>2)
         \<and> (speed s = 0 \<longrightarrow> dragForce_p3 s = (0, 0, 0))
         \<and> (velocity s = (0, 0, 0) \<longrightarrow> dragForce_p3 s = (0, 0, 0))
         \<and> (speed s = 0 \<and> mass s \<noteq> 0 \<longrightarrow>
              acceleration_p3 s = (0, - GRAVITY_p3, 0)
              \<and> velocity (updateVelocity_p3 dt s) = vec3_add (velocity s) (0, - GRAVITY_p3 * dt, 0)
              \<and> position (updatePosition_p3 dt s) =
                  vec3_add (position s)
                    (vec3_scale (vec3_add (velocity s) (0, - GRAVITY_p3 * dt, 0)) dt))
         \<and> (mass s0 \<noteq> 0 \<longrightarrow>
              acceleration s0 = (0, GRAVITY, 0)
              \<and> velocity (updateVelocity dt s0) =
                  vec3_add (vec3_scale (velocity s0) (0.9 powr dt)) (0, GRAVITY * dt, 0))
         \<and> (velocity s0 = (0, 0, 0) \<and> mass s0 \<noteq> 0 \<longrightarrow>
              velocity (updatePosition dt s0) = (0, GRAVITY * dt, 0)
              \<and> position (updatePosition dt s0) =
                  vec3_add (position s0) (0, GRAVITY * dt * dt, 0))"
proof -
  from assms have sq: "speedSq s = (speed s)\<^sup>2" and rq: "radiusSq s = (radius s)\<^sup>2"
    by (simp_all add: caches_p3_def power2_eq_square)
  have formula: "dragForce_p3 s =
      vec3_scale (vec3_normalize (velocity s)) (- (HALFCDRHO * (speed s)\<^sup>2 * (radius s)\<^sup>2))"
    using sq rq by (simp add: dragForce_p3_formula)
  have still: "speed s = 0 \<Longrightarrow> dragForce_p3 s = (0, 0, 0)"
    using sq by (simp add: dragForce_p3_zero_speedSq)
  have acc: "acceleration_p3 s = (0, - GRAVITY_p3, 0)" if "speed s = 0" "mass s \<noteq> 0"
    using that still by (simp add: acceleration_p3_no_drag)
  have vel: "velocity (updateVelocity_p3 dt s) = vec3_add (velocity s) (0, - GRAVITY_p3 * dt, 0)"
    if "speed s = 0" "mass s \<noteq> 0"
    using acc [OF that] by (simp add: velocity_updateVelocity_p3 vec3_scale_def)
  have pos: "position (updatePosition_p3 dt s) =
      vec3_add (position s) (vec3_scale (vec3_add (velocity s) (0, - GRAVITY_p3 * dt, 0)) dt)"
    if "speed s = 0" "mass s \<noteq> 0"
    using vel [OF that] by (simp add: position_updatePosition_p3)
  have fresh: "speed (set_velocity_p3 v s) = vec3_length (velocity (set_velocity_p3 v s))"
    by (simp add: speed_set_velocity_p3 velocity_set_velocity_p3)
  show ?thesis
    using formula still acc vel pos fresh dragForce_p3_zero_velocity [of s]
      updatePosition_at_rest [of s0 dt] vec3_normalize_eq [of "velocity s"]
      vec3_length_normalize [of "velocity s"] dragForce_p3_fresh [OF assms]
      acceleration_explicit [of s0] updateVelocity_explicit [of s0 dt]
      caches_p3_set_velocity_p3 [OF assms, of v] caches_p3_tick_p3 [OF assms, of dt]
      speed_tick_p3 [of dt s]
    by blast
qed

text \<open>
  A draft sphere of radius 1 constructed with speed 0 is at rest with the cached speed 0
  and has the mass \<open>0.5\<close>: its drag force is zero and its first step of a tenth of a second
  has the values of free fall. Assigned the velocity \<open>(2, 0, 0)\<close>, it has the cached speed
  2 and meets the drag force \<open>(- 4 \<cdot> HALFCDRHO, 0, 0)\<close>. A sphere of Sphere.js of radius 1
  at rest has the mass 1 and the step of free fall.
\<close>

theorem dragForce_p3_quadratic_witness:
  "caches_p3 (set_velocity_p3 (2, 0, 0) (Sphere_p3 1 0 (0, 0, 0) (0, 0, 0)))
   \<and> velocity (set_velocity_p3 (2, 0, 0) (Sphere_p3 1 0 (0, 0, 0) (0, 0, 0))) \<noteq> (0, 0, 0)
   \<and> speed (set_velocity_p3 (2, 0, 0) (Sphere_p3 1 0 (0, 0, 0) (0, 0, 0))) =
       vec3_length (velocity (set_velocity_p3 (2, 0, 0) (Sphere_p3 1 0 (0, 0, 0) (0, 0, 0))))
   \<and> vec3_normalize (velocity (set_velocity_p3 (2, 0, 0) (Sphere_p3 1 0 (0, 0, 0) (0, 0, 0)))) =
       (1, 0, 0)
   \<and> dragForce_p3 (set_velocity_p3 (2, 0, 0) (Sphere_p3 1 0 (0, 0, 0) (0, 0, 0))) =
       (- 3.6175439406, 0, 0)
   \<and> vec3_length (dragForce_p3 (set_velocity_p3 (2, 0, 0) (Sphere_p3 1 0 (0, 0, 0) (0, 0, 0)))) =
       3.6175439406
   \<and> caches_p3 (Sphere_p3 1 0 (0, 0, 0) (0, 0, 0))
   \<and> speed (Sphere_p3 1 0 (0, 0, 0) (0, 0, 0)) = 0
   \<and> velocity (Sphere_p3 1 0 (0, 0, 0) (0, 0, 0)) = (0, 0, 0)
   \<and> mass (Sphere_p3 1 0 (0, 0, 0) (0, 0, 0)) \<noteq> 0
   \<and> dragForce_p3 (Sphere_p3 1 0 (0, 0, 0) (0, 0, 0)) = (0, 0, 0)
   \<and> acceleration_p3 (Sphere_p3 1 0 (0, 0, 0) (0, 0, 0)) = (0, - 9.81, 0)
   \<and> velocity (updateVelocity_p3 (1 / 10) (Sphere_p3 1 0 (0, 0, 0) (0, 0, 0))) = (0, - 0.981, 0)
   \<and> position (updatePosition_p3 (1 / 10) (Sphere_p3 1 0 (0, 0, 0) (0, 0, 0))) = (0, - 0.0981, 0)
   \<and> speed (tick_p3 (1 / 10) (Sphere_p3 1 0 (0, 0, 0) (0, 0, 0))) =
       vec3_length (velocity (tick_p3 (1 / 10) (Sphere_p3 1 0 (0, 0, 0) (0, 0, 0))))
   \<and> caches_p3 (tick_p3 (1 / 10) (Sphere_p3 1 0 (0, 0, 0) (0, 0, 0)))
   \<and> mass (Sphere 1 (0, 9, 0) (0, 0, 0) (1, 1, 1)) \<noteq> 0
   \<and> velocity (Sphere 1 (0, 9, 0) (0, 0, 0) (1, 1, 1)) = (0, 0, 0)
   \<and> acceleration (Sphere 1 (0, 9, 0) (0, 0, 0) (1, 1, 1)) = (0, - 9.81, 0)
   \<and> velocity (updateVelocity (1 / 10) (Sphere 1 (0, 9, 0) (0, 0, 0) (1, 1, 1))) = (0, - 0.981, 0)
   \<and> velocity (updatePosition (1 / 10) (Sphere 1 (0, 9, 0) (0, 0, 0) (1, 1, 1))) = (0, - 0.981, 0)
   \<and> position (updatePosition (1 / 10) (Sphere 1 (0, 9, 0) (0, 0, 0) (1, 1, 1))) = (0, 9 - 0.0981, 0)"
proof -
  let ?r = "Sphere_p3 1 0 (0, 0, 0) (0, 0, 0)"
  let ?m = "set_velocity_p3 (2, 0, 0) ?r"
  let ?js = "Sphere 1 (0, 9, 0) (0, 0, 0) (1, 1, 1)"
  have c: "caches_p3 ?r" by (rule caches_p3_Sphere_p3)
  have cm: "caches_p3 ?m" using c by (rule caches_p3_set_velocity_p3)
  have fm: "speed ?m = 2" "velocity ?m = (2, 0, 0)" "radius ?m = 1"
    by (simp_all add: speed_set_velocity_p3 velocity_set_velocity_p3 vec3_length_axis
        set_velocity_p3_def set_speed_p3_def Sphere_p3_fields Let_def)
  have l: "vec3_length (2, 0, 0) = 2" by (simp add: vec3_length_axis)
  from dragForce_p3_quadratic [OF c, of "(2, 0, 0)" "1 / 10" ?js]
    dragForce_p3_quadratic [OF cm, of "(2, 0, 0)" 0 ?js] c cm
  show ?thesis
    by (simp add: fm l Sphere_p3_fields Sphere_fields GRAVITY_p3_def GRAVITY_def HALFCDRHO_def
        vec3_defs vec3_length_axis)
qed

text \<open>
  Claim C1 as stated fails in Sphere.js, which has no drag force. Its acceleration is
  gravity alone, and in a step of one second a sphere of radius 1 keeps \<open>0.9\<close> of the
  horizontal speed 1 and \<open>1.8\<close> of the speed 2, and a sphere of radius 2 keeps \<open>0.9\<close> of
  the speed 1: the loss is proportional to the speed and does not depend on the radius.
  No constant \<open>k\<close> makes the velocity update of Sphere.js the step
  \<open>velocity + (gravity - k \<cdot> speed\<^sup>2 \<cdot> radius\<^sup>2 \<cdot> normalize velocity) / mass \<cdot> dt\<close> of a
  quadratic drag force. In the draft the speed in the formula is the cached one: a sphere
  newly constructed with speed 3, its velocity drawn as \<open>(3, 0, 0)\<close>, has the cached speed
  0 and no drag; and a draft sphere of radius 0 has the mass 0, by which the acceleration
  divides.
\<close>

theorem drag_is_a_factor_in_Sphere_js:
  "acceleration (Sphere 1 (0, 9, 0) (1, 0, 0) (1, 1, 1)) = (0, - 9.81, 0)
   \<and> velocity (updateVelocity 1 (Sphere 1 (0, 9, 0) (1, 0, 0) (1, 1, 1))) = (0.9, - 9.81, 0)
   \<and> velocity (updateVelocity 1 (Sphere 1 (0, 9, 0) (2, 0, 0) (1, 1, 1))) = (1.8, - 9.81, 0)
   \<and> velocity (updateVelocity 1 (Sphere 2 (0, 8, 0) (1, 0, 0) (1, 1, 1))) = (0.9, - 9.81, 0)
   \<and> \<not> (\<exists>k. \<forall>s. velocity (updateVelocity 1 s) =
          vec3_add (velocity s)
            (vec3_scale
              (vec3_scale
                (vec3_add (gravityForce s)
                  (vec3_scale (vec3_normalize (velocity s)) (- (k * (speed s)\<^sup>2 * (radius s)\<^sup>2))))
                (1 / mass s))
              1))
   \<and> velocity (Sphere_p3 1 3 (0, 0, 0) (3, 0, 0)) = (3, 0, 0)
   \<and> speed (Sphere_p3 1 3 (0, 0, 0) (3, 0, 0)) = 0
   \<and> dragForce_p3 (Sphere_p3 1 3 (0, 0, 0) (3, 0, 0)) = (0, 0, 0)
   \<and> speed (Sphere_p3 0 0 (1, 0, 0) (0, 0, 0)) = 0
   \<and> mass (Sphere_p3 0 0 (1, 0, 0) (0, 0, 0)) = 0"
proof -
  let ?a = "Sphere 1 (0, 9, 0) (1, 0, 0) (1, 1, 1)"
  let ?b = "Sphere 1 (0, 9, 0) (2, 0, 0) (1, 1, 1)"
  let ?c = "Sphere 2 (0, 8, 0) (1, 0, 0) (1, 1, 1)"
  have acc: "acceleration ?a = (0, - 9.81, 0)"
    by (simp add: acceleration_explicit Sphere_fields GRAVITY_def)
  have v: "velocity (updateVelocity 1 ?a) = (0.9, - 9.81, 0)"
    "velocity (updateVelocity 1 ?b) = (1.8, - 9.81, 0)"
    "velocity (updateVelocity 1 ?c) = (0.9, - 9.81, 0)"
    by (simp_all add: updateVelocity_explicit Sphere_fields GRAVITY_def vec3_defs)
  have n: "vec3_normalize (1, 0, 0) = (1, 0, 0)" "vec3_normalize (2, 0, 0) = (1, 0, 0)"
    by (simp_all add: vec3_normalize_def)
  have no: "\<not> (\<exists>k. \<forall>s. velocity (updateVelocity 1 s) =
          vec3_add (velocity s)
            (vec3_scale
              (vec3_scale
                (vec3_add (gravityForce s)
                  (vec3_scale (vec3_normalize (velocity s)) (- (k * (speed s)\<^sup>2 * (radius s)\<^sup>2))))
                (1 / mass s))
              1))"
  proof
    assume "\<exists>k. \<forall>s. velocity (updateVelocity 1 s) =
          vec3_add (velocity s)
            (vec3_scale
              (vec3_scale
                (vec3_add (gravityForce s)
                  (vec3_scale (vec3_normalize (velocity s)) (- (k * (speed s)\<^sup>2 * (radius s)\<^sup>2))))
                (1 / mass s))
              1)"
    then obtain k where k: "\<And>s. velocity (updateVelocity 1 s) =
          vec3_add (velocity s)
            (vec3_scale
              (vec3_scale
                (vec3_add (gravityForce s)
                  (vec3_scale (vec3_normalize (velocity s)) (- (k * (speed s)\<^sup>2 * (radius s)\<^sup>2))))
                (1 / mass s))
              1)"
      by blast
    from k [of ?a] have "9 / 10 = 1 - k"
      by (simp add: v Sphere_fields n vec3_length_axis gravityForce_def vec3_defs)
    moreover from k [of ?b] have "18 / 10 = 2 - 4 * k"
      by (simp add: v Sphere_fields n vec3_length_axis gravityForce_def vec3_defs)
    ultimately show False by simp
  qed
  have d: "dragForce_p3 (Sphere_p3 1 3 (0, 0, 0) (3, 0, 0)) = (0, 0, 0)"
    by (simp add: dragForce_p3_zero_speedSq Sphere_p3_speedSq)
  show ?thesis
    using no by (simp add: acc v d Sphere_p3_fields)
qed

subsection \<open>Integration (claim C2)\<close>

text \<open>
  Claim C2, as amended. Each tick first updates the velocity and only afterwards adds the
  time step times the updated velocity to the position, then handles collisions. In
  Sphere.js the acceleration is gravity over mass, with no drag force, and the velocity
  update is \<open>velocity \<cdot> (0.9 powr dt) + acceleration \<cdot> dt\<close>; in the draft the acceleration is
  \<open>(gravity + drag) / mass\<close> and the velocity update is \<open>velocity + acceleration \<cdot> dt\<close>.
\<close>

theorem velocity_before_position:
  "acceleration s = vec3_scale (gravityForce s) (1 / mass s)
   \<and> velocity (updateVelocity dt s) =
       vec3_add (vec3_scale (velocity s) (0.9 powr dt)) (vec3_scale (acceleration s) dt)
   \<and> velocity (updatePosition dt s) = velocity (updateVelocity dt s)
   \<and> position (updatePosition dt s) =
       vec3_add (position s) (vec3_scale (velocity (updatePosition dt s)) dt)
   \<and> tick dt s = handleCollisions dt defaultBoundingRange (updatePosition dt s)
   \<and> acceleration_p3 s' =
       vec3_scale (vec3_add (gravityForce_p3 s') (dragForce_p3 s')) (1 / mass s')
   \<and> velocity (updateVelocity_p3 dt s') =
       vec3_add (velocity s') (vec3_scale (acceleration_p3 s') dt)
   \<and> position (updatePosition_p3 dt s') =
       vec3_add (position s') (vec3_scale (velocity (updateVelocity_p3 dt s')) dt)
   \<and> tick_p3 dt s' = handleCollisions_p3 dt defaultBoundingRange (updatePosition_p3 dt s')"
proof -
  have a: "acceleration s = vec3_scale (gravityForce s) (1 / mass s)"
    by (simp add: acceleration_def Let_def)
  have v: "velocity (updateVelocity dt s) =
      vec3_add (vec3_scale (velocity s) (0.9 powr dt)) (vec3_scale (acceleration s) dt)"
    by (simp add: velocity_updateVelocity dragFactor_def)
  have p: "position (updatePosition dt s) =
      vec3_add (position s) (vec3_scale (velocity (updatePosition dt s)) dt)"
    by (simp add: position_updatePosition velocity_updatePosition)
  have a': "acceleration_p3 s' =
      vec3_scale (vec3_add (gravityForce_p3 s') (dragForce_p3 s')) (1 / mass s')"
    by (simp add: acceleration_p3_def Let_def)
  show ?thesis
    using a v p a' velocity_updatePosition [of dt s] velocity_updateVelocity_p3 [of dt s']
      position_updatePosition_p3 [of dt s'] tick_def [of dt s] tick_p3_def [of dt s']
    by blast
qed

text \<open>
  Claim C2 as stated fails on Sphere.js: a sphere moving along x with unit speed has
  velocity \<open>(0.9, - 9.81, 0)\<close> after a step of one second, not velocity plus acceleration
  times the step, which is \<open>(1, - 9.81, 0)\<close>. The loss is no quadratic drag force either:
  it is \<open>0.1\<close> at speed 1 and \<open>0.2\<close>, not four times as much, at speed 2. In the draft the velocity update is the
  additive one, but the velocity the object holds after \<^verbatim>\<open>updatePosition\<close> is that velocity
  times the step: at rest, after a step of two seconds, \<open>(0, - 39.24, 0)\<close> and not
  \<open>(0, - 19.62, 0)\<close>.
\<close>

theorem velocity_update_not_additive:
  "velocity (updatePosition 1 (Sphere 1 (0, 5, 0) (1, 0, 0) (1, 1, 1))) = (0.9, - 9.81, 0)
   \<and> vec3_add (velocity (Sphere 1 (0, 5, 0) (1, 0, 0) (1, 1, 1)))
        (vec3_scale (acceleration (Sphere 1 (0, 5, 0) (1, 0, 0) (1, 1, 1))) 1) = (1, - 9.81, 0)
   \<and> velocity (updatePosition 1 (Sphere 1 (0, 5, 0) (1, 0, 0) (1, 1, 1))) \<noteq>
       vec3_add (velocity (Sphere 1 (0, 5, 0) (1, 0, 0) (1, 1, 1)))
         (vec3_scale (acceleration (Sphere 1 (0, 5, 0) (1, 0, 0) (1, 1, 1))) 1)
   \<and> velocity (updatePosition 1 (Sphere 1 (0, 5, 0) (2, 0, 0) (1, 1, 1))) = (1.8, - 9.81, 0)
   \<and> velocity (updatePosition_p3 2 (Sphere_p3 1 0 (0, 5, 0) (0, 0, 0))) = (0, - 39.24, 0)
   \<and> vec3_add (velocity (Sphere_p3 1 0 (0, 5, 0) (0, 0, 0)))
        (vec3_scale (acceleration_p3 (Sphere_p3 1 0 (0, 5, 0) (0, 0, 0))) 2) = (0, - 19.62, 0)
   \<and> velocity (updatePosition_p3 2 (Sphere_p3 1 0 (0, 5, 0) (0, 0, 0))) \<noteq>
       vec3_add (velocity (Sphere_p3 1 0 (0, 5, 0) (0, 0, 0)))
         (vec3_scale (acceleration_p3 (Sphere_p3 1 0 (0, 5, 0) (0, 0, 0))) 2)"
proof -
  let ?s = "Sphere 1 (0, 5, 0) (1, 0, 0) (1, 1, 1)"
  let ?d = "Sphere_p3 1 0 (0, 5, 0) (0, 0, 0)"
  have a: "acceleration ?s = (0, - 9.81, 0)"
    by (simp add: acceleration_explicit Sphere_fields GRAVITY_def)
  have v: "velocity (updatePosition 1 ?s) = (0.9, - 9.81, 0)"
    "velocity (updatePosition 1 (Sphere 1 (0, 5, 0) (2, 0, 0) (1, 1, 1))) = (1.8, - 9.81, 0)"
    by (simp_all add: updatePosition_explicit Sphere_fields GRAVITY_def)
  have a': "acceleration_p3 ?d = (0, - 9.81, 0)"
    by (simp add: acceleration_p3_no_drag dragForce_p3_zero_speedSq Sphere_p3_speedSq
        Sphere_p3_fields GRAVITY_p3_def)
  have v': "velocity (updatePosition_p3 2 ?d) = (0, - 39.24, 0)"
    by (simp add: first_step_p3 GRAVITY_p3_def vec3_defs)
  show ?thesis
    by (simp add: v a v' a' Sphere_fields Sphere_p3_fields vec3_defs)
qed

subsection \<open>The inset box (claim C3)\<close>


text \<open>
  For radius 1 the inset bounds of the default box, \<open>- 9\<close> and \<open>9\<close>, are single-precision
  numbers, and the rounded box is the exact one.
\<close>

lemma within_stored_inset_radius_1:
  "within_stored_inset defaultBoundingRange 1 p \<longleftrightarrow> within_inset defaultBoundingRange 1 p"
  by (simp add: within_stored_inset_def within_inset_def inset_default float32_9)





subsection \<open>Reflection (claim C4)\<close>

text \<open>
  Claim C4, as amended. In Sphere.js, on an axis whose inset interval is not degenerate
  (\<open>min + radius < max - radius\<close>), \<^verbatim>\<open>handleCollisions\<close> negates the velocity component
  exactly when the coordinate is at or beyond an inset bound, the case in which it clamps
  the coordinate, and leaves the component as it is otherwise: what happens to one axis
  depends on that axis alone. For a tick the default box is in effect, the condition is
  \<open>radius < 10\<close>, and the velocity compared with is the one after the velocity update of
  the same tick.
\<close>

theorem clamp_negates_velocity:
  "(inset_min (xRange br) (radius s) < inset_max (xRange br) (radius s) \<longrightarrow>
      v0 (velocity (handleCollisions dt br s)) =
        (if clamps (xRange br) (radius s) (v0 (position s))
         then - v0 (velocity s) else v0 (velocity s)))
   \<and> (inset_min (yRange br) (radius s) < inset_max (yRange br) (radius s) \<longrightarrow>
      v1 (velocity (handleCollisions dt br s)) =
        (if clamps (yRange br) (radius s) (v1 (position s))
         then - v1 (velocity s) else v1 (velocity s)))
   \<and> (inset_min (zRange br) (radius s) < inset_max (zRange br) (radius s) \<longrightarrow>
      v2 (velocity (handleCollisions dt br s)) =
        (if clamps (zRange br) (radius s) (v2 (position s))
         then - v2 (velocity s) else v2 (velocity s)))
   \<and> (radius s < 10 \<longrightarrow>
      v0 (velocity (tick dt s)) =
        (if clamps (xRange defaultBoundingRange) (radius s) (v0 (position (updatePosition dt s)))
         then - v0 (velocity (updatePosition dt s)) else v0 (velocity (updatePosition dt s)))
      \<and> v1 (velocity (tick dt s)) =
        (if clamps (yRange defaultBoundingRange) (radius s) (v1 (position (updatePosition dt s)))
         then - v1 (velocity (updatePosition dt s)) else v1 (velocity (updatePosition dt s)))
      \<and> v2 (velocity (tick dt s)) =
        (if clamps (zRange defaultBoundingRange) (radius s) (v2 (position (updatePosition dt s)))
         then - v2 (velocity (updatePosition dt s)) else v2 (velocity (updatePosition dt s))))"
proof -
  have t: "inset_min (xRange defaultBoundingRange) (radius (updatePosition dt s))
        < inset_max (xRange defaultBoundingRange) (radius (updatePosition dt s))"
      "inset_min (yRange defaultBoundingRange) (radius (updatePosition dt s))
        < inset_max (yRange defaultBoundingRange) (radius (updatePosition dt s))"
      "inset_min (zRange defaultBoundingRange) (radius (updatePosition dt s))
        < inset_max (zRange defaultBoundingRange) (radius (updatePosition dt s))"
    if "radius s < 10"
    using that by (simp_all add: inset_default frame_updatePosition)
  show ?thesis
  proof (intro conjI impI)
    assume r: "radius s < 10"
    show "v0 (velocity (tick dt s)) =
        (if clamps (xRange defaultBoundingRange) (radius s) (v0 (position (updatePosition dt s)))
         then - v0 (velocity (updatePosition dt s)) else v0 (velocity (updatePosition dt s)))"
      using velocity_handleCollisions_if(1) [OF t(1) [OF r], of dt]
      by (simp add: tick_def frame_updatePosition)
    show "v1 (velocity (tick dt s)) =
        (if clamps (yRange defaultBoundingRange) (radius s) (v1 (position (updatePosition dt s)))
         then - v1 (velocity (updatePosition dt s)) else v1 (velocity (updatePosition dt s)))"
      using velocity_handleCollisions_if(2) [OF t(2) [OF r], of dt]
      by (simp add: tick_def frame_updatePosition)
    show "v2 (velocity (tick dt s)) =
        (if clamps (zRange defaultBoundingRange) (radius s) (v2 (position (updatePosition dt s)))
         then - v2 (velocity (updatePosition dt s)) else v2 (velocity (updatePosition dt s)))"
      using velocity_handleCollisions_if(3) [OF t(3) [OF r], of dt]
      by (simp add: tick_def frame_updatePosition)
  qed (simp_all only: velocity_handleCollisions_if)
qed

text \<open>
  Claim C4 as stated fails when the inset interval is degenerate: with radius 11 both
  tests of the x axis succeed, the coordinate is moved from \<open>0.9\<close> to \<open>- 1\<close>, and the
  velocity component, negated twice, is unchanged. It also fails at the lower y face of
  the draft, which multiplies the component by \<open>- 3\<close>: a sphere falling through the floor
  with y velocity \<open>- 9.81\<close> leaves the tick with \<open>29.43\<close>.
\<close>

theorem double_clamp_keeps_velocity:
  "clamps (xRange defaultBoundingRange) (radius (Sphere 11 (0, 0, 0) (1, 0, 0) (1, 1, 1)))
     (v0 (position (updatePosition 1 (Sphere 11 (0, 0, 0) (1, 0, 0) (1, 1, 1)))))
   \<and> v0 (position (updatePosition 1 (Sphere 11 (0, 0, 0) (1, 0, 0) (1, 1, 1)))) = 0.9
   \<and> v0 (position (tick 1 (Sphere 11 (0, 0, 0) (1, 0, 0) (1, 1, 1)))) = - 1
   \<and> v0 (velocity (updatePosition 1 (Sphere 11 (0, 0, 0) (1, 0, 0) (1, 1, 1)))) = 0.9
   \<and> v0 (velocity (tick 1 (Sphere 11 (0, 0, 0) (1, 0, 0) (1, 1, 1)))) = 0.9
   \<and> v0 (velocity (tick 1 (Sphere 11 (0, 0, 0) (1, 0, 0) (1, 1, 1)))) \<noteq>
       - v0 (velocity (updatePosition 1 (Sphere 11 (0, 0, 0) (1, 0, 0) (1, 1, 1))))
   \<and> v1 (position (updatePosition_p3 1 (Sphere_p3 1 0 (0, - 8, 0) (0, 0, 0)))) = - 17.81
   \<and> v1 (position (tick_p3 1 (Sphere_p3 1 0 (0, - 8, 0) (0, 0, 0)))) = - 9
   \<and> v1 (velocity (updatePosition_p3 1 (Sphere_p3 1 0 (0, - 8, 0) (0, 0, 0)))) = - 9.81
   \<and> v1 (velocity (tick_p3 1 (Sphere_p3 1 0 (0, - 8, 0) (0, 0, 0)))) = 29.43
   \<and> v1 (velocity (tick_p3 1 (Sphere_p3 1 0 (0, - 8, 0) (0, 0, 0)))) \<noteq>
       - v1 (velocity (updatePosition_p3 1 (Sphere_p3 1 0 (0, - 8, 0) (0, 0, 0))))"
proof -
  let ?s = "Sphere 11 (0, 0, 0) (1, 0, 0) (1, 1, 1)"
  let ?d = "Sphere_p3 1 0 (0, - 8, 0) (0, 0, 0)"
  have u: "v0 (position (updatePosition 1 ?s)) = 0.9" "v0 (velocity (updatePosition 1 ?s)) = 0.9"
    "radius (updatePosition 1 ?s) = 11"
    by (simp_all add: updatePosition_explicit frame_updatePosition Sphere_fields)
  have t: "v0 (position (tick 1 ?s)) = - 1" "v0 (velocity (tick 1 ?s)) = 0.9"
    by (simp_all add: tick_def position_handleCollisions velocity_handleCollisions u
        inset_default collide_axis_def Let_def)
  have u': "v1 (position (updatePosition_p3 1 ?d)) = - 17.81"
    "v1 (velocity (updatePosition_p3 1 ?d)) = - 9.81" "radius (updatePosition_p3 1 ?d) = 1"
    by (simp_all add: first_step_p3 frame_updatePosition_p3 Sphere_p3_fields GRAVITY_p3_def
        vec3_defs)
  have t': "v1 (position (tick_p3 1 ?d)) = - 9" "v1 (velocity (tick_p3 1 ?d)) = 29.43"
    by (simp_all add: tick_p3_def position_handleCollisions_p3 velocity_handleCollisions_p3 u'
        inset_default collide_axis_p3_def Let_def)
  show ?thesis
    by (simp add: u t u' t' clamps_def inset_default Sphere_fields)
qed

text \<open>
  A sphere of radius 1 falling from height \<open>- 8\<close>: the step of one second takes it below
  the floor, the y component of the velocity is negated and the x component is not.
\<close>

theorem clamp_negates_velocity_witness:
  "inset_min (xRange defaultBoundingRange) (radius (Sphere 1 (0, - 8, 0) (1, 0, 0) (1, 1, 1)))
     < inset_max (xRange defaultBoundingRange) (radius (Sphere 1 (0, - 8, 0) (1, 0, 0) (1, 1, 1)))
   \<and> radius (Sphere 1 (0, - 8, 0) (1, 0, 0) (1, 1, 1)) < 10
   \<and> clamps (yRange defaultBoundingRange) 1
        (v1 (position (updatePosition 1 (Sphere 1 (0, - 8, 0) (1, 0, 0) (1, 1, 1)))))
   \<and> \<not> clamps (xRange defaultBoundingRange) 1
        (v0 (position (updatePosition 1 (Sphere 1 (0, - 8, 0) (1, 0, 0) (1, 1, 1)))))
   \<and> velocity (updatePosition 1 (Sphere 1 (0, - 8, 0) (1, 0, 0) (1, 1, 1))) = (0.9, - 9.81, 0)
   \<and> v0 (velocity (tick 1 (Sphere 1 (0, - 8, 0) (1, 0, 0) (1, 1, 1)))) = 0.9
   \<and> v1 (velocity (tick 1 (Sphere 1 (0, - 8, 0) (1, 0, 0) (1, 1, 1)))) = 9.81
   \<and> v0 (velocity (handleCollisions 1 defaultBoundingRange (Sphere 1 (0, - 8, 0) (1, 0, 0) (1, 1, 1)))) = 1"
proof -
  let ?s = "Sphere 1 (0, - 8, 0) (1, 0, 0) (1, 1, 1)"
  have u: "position (updatePosition 1 ?s) = (0.9, - 17.81, 0)"
    "velocity (updatePosition 1 ?s) = (0.9, - 9.81, 0)"
    by (simp_all add: updatePosition_explicit Sphere_fields GRAVITY_def)
  from clamp_negates_velocity [of defaultBoundingRange ?s 1] u show ?thesis
    by (simp add: Sphere_fields inset_default clamps_def)
qed

subsection \<open>Mass (claim C5)\<close>

text \<open>
  Claim C5, as amended. In the draft, assigning the radius, in the constructor or through
  the setter, recomputes the mass as \<open>0.5 \<cdot> r\<^sup>2\<close> for every \<open>r\<close>; no other method changes the
  mass, except the mass setter, which stores what it is given. In Sphere.js the constructor
  sets the mass to 1 and the radius setter leaves the mass as it is.
\<close>

theorem mass_from_radius:
  "mass (set_radius_p3 r s') = 0.5 * r\<^sup>2
   \<and> mass (Sphere_p3 r sp p v) = 0.5 * r\<^sup>2
   \<and> mass (set_position_p3 p s') = mass s'
   \<and> mass (set_velocity_p3 v s') = mass s'
   \<and> mass (set_speed_p3 sp s') = mass s'
   \<and> mass (set_color_p3 c s') = mass s'
   \<and> mass (updateVelocity_p3 dt s') = mass s'
   \<and> mass (updatePosition_p3 dt s') = mass s'
   \<and> mass (handleCollisions_p3 dt br s') = mass s'
   \<and> mass (tick_p3 dt s') = mass s'
   \<and> mass (set_mass_p3 m s') = m
   \<and> mass (Sphere r p v c) = 1
   \<and> mass (set_radius r s) = mass s"
  by (simp add: set_radius_p3_fields Sphere_p3_fields Sphere_fields frame_updateVelocity_p3
      frame_updatePosition_p3 frame_handleCollisions_p3 frame_tick_p3 power2_eq_square
      set_position_p3_def set_velocity_p3_def set_speed_p3_def set_color_p3_def set_mass_p3_def
      set_radius_def Let_def)

text \<open>
  Claim C5 as stated fails on Sphere.js: a sphere constructed with radius 2, or assigned
  radius 2, has mass 1 and not \<open>0.5 \<cdot> 2\<^sup>2\<close>.
\<close>

theorem constructor_mass_is_one:
  "mass (Sphere 2 (0, 0, 0) (0, 0, 0) (1, 1, 1)) = 1
   \<and> mass (Sphere 2 (0, 0, 0) (0, 0, 0) (1, 1, 1)) \<noteq> 0.5 * 2\<^sup>2
   \<and> mass (set_radius 2 (Sphere 1 (0, 0, 0) (0, 0, 0) (1, 1, 1))) = 1
   \<and> mass (set_radius 2 (Sphere 1 (0, 0, 0) (0, 0, 0) (1, 1, 1))) \<noteq> 0.5 * 2\<^sup>2"
  by (simp add: Sphere_fields set_radius_def)

subsection \<open>Color (claim C6)\<close>

text \<open>
  Claim C6, as amended. In the draft, assigning the radius (in the setter and in the
  constructor) recomputes the color from the new mass as
  \<open>(255 \<cdot> mass, 255 \<cdot> (1 - \<bar>1 - 2 \<cdot> mass\<bar>), 255 \<cdot> (1 - mass))\<close>. Nothing is clamped: the three
  components lie within \<open>[0, 255]\<close> exactly when \<open>r\<^sup>2 \<le> 2\<close>, that is when the mass is at
  most 1.
\<close>

theorem color_from_mass:
  "mass (set_radius_p3 r s) = 0.5 * r\<^sup>2
   \<and> color (set_radius_p3 r s) =
       (255 * mass (set_radius_p3 r s),
        255 * (1 - \<bar>1 - 2 * mass (set_radius_p3 r s)\<bar>),
        255 * (1 - mass (set_radius_p3 r s)))
   \<and> color (Sphere_p3 r sp p v) = color (set_radius_p3 r s)
   \<and> ((0 \<le> v0 (color (set_radius_p3 r s)) \<and> v0 (color (set_radius_p3 r s)) \<le> 255
        \<and> 0 \<le> v1 (color (set_radius_p3 r s)) \<and> v1 (color (set_radius_p3 r s)) \<le> 255
        \<and> 0 \<le> v2 (color (set_radius_p3 r s)) \<and> v2 (color (set_radius_p3 r s)) \<le> 255)
       \<longleftrightarrow> r\<^sup>2 \<le> 2)"
proof -
  have m: "mass (set_radius_p3 r s) = 0.5 * r\<^sup>2"
    by (simp add: set_radius_p3_fields power2_eq_square)
  have c: "color (set_radius_p3 r s) =
       (255 * mass (set_radius_p3 r s),
        255 * (1 - \<bar>1 - 2 * mass (set_radius_p3 r s)\<bar>),
        255 * (1 - mass (set_radius_p3 r s)))"
    by (simp add: set_radius_p3_fields)
  have k: "color (Sphere_p3 r sp p v) = color (set_radius_p3 r s)"
    by (simp add: set_radius_p3_fields Sphere_p3_fields)
  have nn: "0 \<le> r\<^sup>2" by simp
  have rng: "(0 \<le> v0 (color (set_radius_p3 r s)) \<and> v0 (color (set_radius_p3 r s)) \<le> 255
        \<and> 0 \<le> v1 (color (set_radius_p3 r s)) \<and> v1 (color (set_radius_p3 r s)) \<le> 255
        \<and> 0 \<le> v2 (color (set_radius_p3 r s)) \<and> v2 (color (set_radius_p3 r s)) \<le> 255)
       \<longleftrightarrow> r\<^sup>2 \<le> 2"
    using nn unfolding c m by (simp add: abs_if)
  from m c k rng show ?thesis by blast
qed

text \<open>
  Claim C6 as stated fails for radius 2: the mass is 2 and the color is
  \<open>(510, - 510, - 255)\<close>, outside \<open>[0, 255]\<close> in every component.
\<close>

theorem color_out_of_range:
  "color (Sphere_p3 2 0 (0, 0, 0) (0, 0, 0)) = (510, - 510, - 255)
   \<and> color (set_radius_p3 2 (Sphere_p3 1 0 (0, 0, 0) (0, 0, 0))) = (510, - 510, - 255)
   \<and> \<not> v0 (color (set_radius_p3 2 (Sphere_p3 1 0 (0, 0, 0) (0, 0, 0)))) \<le> 255
   \<and> \<not> 0 \<le> v2 (color (set_radius_p3 2 (Sphere_p3 1 0 (0, 0, 0) (0, 0, 0))))"
  by (simp add: Sphere_p3_fields set_radius_p3_fields)

subsection \<open>Radius assignment (claim C7)\<close>

text \<open>
  Claim C7, as amended. Assigning a radius succeeds for every value, \<open>r \<le> 0\<close> included:
  the setters and the constructors of both classes store the value as given, and nothing
  is clamped or rejected. For \<open>r > 0\<close> this is what the specified assignment does. No
  method of either class has a failure path: each model above is a function that returns
  a state for every input.
\<close>

theorem radius_assignment_total:
  "radius (set_radius r s) = r
   \<and> radius (set_radius_p3 r s') = r
   \<and> radius (Sphere r p v c) = r
   \<and> radius (Sphere_p3 r sp p v) = r
   \<and> (0 < r \<longrightarrow> setRadius_spec set_radius r s = Inr (set_radius r s)
               \<and> setRadius_spec set_radius_p3 r s' = Inr (set_radius_p3 r s'))"
  by (simp add: set_radius_def set_radius_p3_fields Sphere_fields Sphere_p3_fields
      setRadius_spec_def)

text \<open>
  Claim C7 as stated fails: the specified assignment rejects the radius \<open>- 1\<close>, and the
  setter of the draft accepts it, stores \<open>- 1\<close> and sets the mass to \<open>0.5\<close>; the setter of
  Sphere.js and both constructors accept such a radius too.
\<close>

theorem nonpositive_radius_accepted:
  "setRadius_spec set_radius_p3 (- 1) (Sphere_p3 1 0 (0, 5, 0) (0, 0, 0)) = Inl InvalidParameter
   \<and> Inr (set_radius_p3 (- 1) (Sphere_p3 1 0 (0, 5, 0) (0, 0, 0))) \<noteq>
       setRadius_spec set_radius_p3 (- 1) (Sphere_p3 1 0 (0, 5, 0) (0, 0, 0))
   \<and> radius (set_radius_p3 (- 1) (Sphere_p3 1 0 (0, 5, 0) (0, 0, 0))) = - 1
   \<and> mass (set_radius_p3 (- 1) (Sphere_p3 1 0 (0, 5, 0) (0, 0, 0))) = 0.5
   \<and> radius (set_radius (- 1) (Sphere 1 (0, 5, 0) (0, 0, 0) (1, 1, 1))) = - 1
   \<and> radius (Sphere 0 (0, 5, 0) (0, 0, 0) (1, 1, 1)) = 0
   \<and> radius (Sphere_p3 0 0 (0, 5, 0) (0, 0, 0)) = 0"
  by (simp add: setRadius_spec_def set_radius_p3_fields set_radius_def Sphere_fields
      Sphere_p3_fields)

text \<open>
  The radius 2 satisfies the hypothesis.
\<close>

theorem radius_assignment_total_witness:
  "(0::real) < 2
   \<and> radius (set_radius 2 (Sphere 1 (0, 5, 0) (0, 0, 0) (1, 1, 1))) = 2
   \<and> setRadius_spec set_radius 2 (Sphere 1 (0, 5, 0) (0, 0, 0) (1, 1, 1)) =
       Inr (set_radius 2 (Sphere 1 (0, 5, 0) (0, 0, 0) (1, 1, 1)))
   \<and> setRadius_spec set_radius_p3 2 (Sphere_p3 1 0 (0, 5, 0) (0, 0, 0)) =
       Inr (set_radius_p3 2 (Sphere_p3 1 0 (0, 5, 0) (0, 0, 0)))"
  using radius_assignment_total [of 2 "Sphere 1 (0, 5, 0) (0, 0, 0) (1, 1, 1)"
      "Sphere_p3 1 0 (0, 5, 0) (0, 0, 0)"]
  by simp

subsection \<open>Speed (claim C8)\<close>

text \<open>
  Where the velocity is assigned through its setter, \<^verbatim>\<open>speed\<close> is the Euclidean length of
  the vector assigned, and every method that ends with such an assignment leaves \<^verbatim>\<open>speed\<close>
  equal to the length of the stored velocity: in Sphere.js the constructor,
  \<^verbatim>\<open>updateVelocity\<close>, \<^verbatim>\<open>updatePosition\<close>, \<^verbatim>\<open>handleCollisions\<close> and \<^verbatim>\<open>tick\<close>; in the draft
  \<^verbatim>\<open>updateVelocity\<close>, \<^verbatim>\<open>handleCollisions\<close> and \<^verbatim>\<open>tick\<close>.
\<close>

lemma speed_is_length:
  "speed (set_velocity v s) = vec3_length v
   \<and> velocity (set_velocity v s) = v
   \<and> speed (Sphere r p v c) = vec3_length (velocity (Sphere r p v c))
   \<and> speed (updateVelocity dt s) = vec3_length (velocity (updateVelocity dt s))
   \<and> speed (updatePosition dt s) = vec3_length (velocity (updatePosition dt s))
   \<and> speed (handleCollisions dt br s) = vec3_length (velocity (handleCollisions dt br s))
   \<and> speed (tick dt s) = vec3_length (velocity (tick dt s))
   \<and> speed (set_velocity_p3 v s') = vec3_length v
   \<and> velocity (set_velocity_p3 v s') = v
   \<and> speed (updateVelocity_p3 dt s') = vec3_length (velocity (updateVelocity_p3 dt s'))
   \<and> speed (handleCollisions_p3 dt br s') = vec3_length (velocity (handleCollisions_p3 dt br s'))
   \<and> speed (tick_p3 dt s') = vec3_length (velocity (tick_p3 dt s'))"
  by (simp add: speed_set_velocity velocity_set_velocity speed_set_velocity_p3
      velocity_set_velocity_p3 Sphere_fields speed_updateVelocity speed_updateVelocity_p3
      speed_handleCollisions speed_handleCollisions_p3 frame_updatePosition
      velocity_updatePosition tick_def tick_p3_def)

text \<open>
  Claim C8 holds in Sphere.js and fails in the draft, whose constructor assigns a zero
  vector to the velocity and then lets \<^verbatim>\<open>vec3.random\<close> fill that array in place: a sphere
  constructed with speed 3, its velocity drawn as \<open>(3, 0, 0)\<close>, has the cached speed 0.
  The draft's \<^verbatim>\<open>updatePosition\<close> scales the velocity array in place in the same way: from
  rest, after the move of a step of two seconds the stored velocity has length \<open>39.24\<close>
  and the cached speed is \<open>19.62\<close>. The constructor of Sphere.js passes the drawn vector to
  the setter, and the speed is 3.
\<close>

theorem speed_stale_in_draft:
  "velocity (Sphere_p3 1 3 (0, 0, 0) (3, 0, 0)) = (3, 0, 0)
   \<and> vec3_length (velocity (Sphere_p3 1 3 (0, 0, 0) (3, 0, 0))) = 3
   \<and> speed (Sphere_p3 1 3 (0, 0, 0) (3, 0, 0)) = 0
   \<and> speed (Sphere_p3 1 3 (0, 0, 0) (3, 0, 0)) \<noteq>
       vec3_length (velocity (Sphere_p3 1 3 (0, 0, 0) (3, 0, 0)))
   \<and> velocity (updatePosition_p3 2 (Sphere_p3 1 0 (0, 5, 0) (0, 0, 0))) = (0, - 39.24, 0)
   \<and> vec3_length (velocity (updatePosition_p3 2 (Sphere_p3 1 0 (0, 5, 0) (0, 0, 0)))) = 39.24
   \<and> speed (updatePosition_p3 2 (Sphere_p3 1 0 (0, 5, 0) (0, 0, 0))) = 19.62
   \<and> speed (Sphere 1 (0, 0, 0) (3, 0, 0) (1, 1, 1)) = 3"
proof -
  let ?d = "Sphere_p3 1 0 (0, 5, 0) (0, 0, 0)"
  have v: "velocity (updateVelocity_p3 2 ?d) = (0, - 19.62, 0)"
    "velocity (updatePosition_p3 2 ?d) = (0, - 39.24, 0)"
    by (simp_all add: first_step_p3 GRAVITY_p3_def vec3_defs)
  have s: "speed (updatePosition_p3 2 ?d) = 19.62"
    by (simp add: frame_updatePosition_p3 speed_updateVelocity_p3 v vec3_length_axis)
  show ?thesis
    by (simp add: v s Sphere_p3_fields Sphere_fields vec3_length_axis)
qed

subsection \<open>The engine (claim C9)\<close>

text \<open>
  Claim C9. \<^verbatim>\<open>resetSpheres\<close> leaves the engine with an empty list, and a \<^verbatim>\<open>tick\<close> of the
  emptied engine returns the same engine, still with no sphere, and the same store: no
  sphere object is changed, whichever \<^verbatim>\<open>tick\<close> method the spheres have.
\<close>

theorem reset_then_tick:
  "sphereList (resetSpheres e) = []
   \<and> length (sphereList (resetSpheres e)) = 0
   \<and> PhysicsEngine_tick sphere_tick dt (resetSpheres e) store = (resetSpheres e, store)
   \<and> length (sphereList (fst (PhysicsEngine_tick sphere_tick dt (resetSpheres e) store))) = 0"
  by (simp add: resetSpheres_def set_sphereList_def PhysicsEngine_tick_def)

text \<open>The scenario of the specification: two additions, then a reset.\<close>

lemma count_after_add_add_reset:
  "length (sphereList PhysicsEngine) = 0"
  "length (sphereList (fst (addSphere_default a PhysicsEngine store))) = 1"
  "length (sphereList (fst (addSphere_default b (fst (addSphere_default a PhysicsEngine store))
      (snd (addSphere_default a PhysicsEngine store))))) = 2"
  "length (sphereList (resetSpheres (fst (addSphere_default b (fst (addSphere_default a PhysicsEngine store))
      (snd (addSphere_default a PhysicsEngine store)))))) = 0"
  by (simp_all add: PhysicsEngine_def addSphere_default_def addSphere_def resetSpheres_def
      set_sphereList_def)

subsection \<open>A sphere on a bound (claim C10)\<close>

text \<open>
  Claim C10, as amended. In Sphere.js, for a sphere of radius below 10, a tick negates
  the velocity component of an axis whenever the coordinate, after the move of that tick,
  equals an inset bound exactly, and leaves the coordinate there; no motion across the
  face is needed. So a sphere of nonzero mass that sits on a bound and does not move,
  as under a time step of zero, has that velocity component negated by every tick: after
  \<open>n\<close> ticks it is \<open>(- 1) ^ n\<close> times the first one.
\<close>

theorem on_bound_flips_velocity:
  "(radius s < 10 \<and> on_bound (xRange defaultBoundingRange) (radius s) (v0 (position (updatePosition dt s)))
      \<longrightarrow> v0 (velocity (tick dt s)) = - v0 (velocity (updatePosition dt s))
          \<and> v0 (position (tick dt s)) = v0 (position (updatePosition dt s)))
   \<and> (radius s < 10 \<and> on_bound (yRange defaultBoundingRange) (radius s) (v1 (position (updatePosition dt s)))
      \<longrightarrow> v1 (velocity (tick dt s)) = - v1 (velocity (updatePosition dt s))
          \<and> v1 (position (tick dt s)) = v1 (position (updatePosition dt s)))
   \<and> (radius s < 10 \<and> on_bound (zRange defaultBoundingRange) (radius s) (v2 (position (updatePosition dt s)))
      \<longrightarrow> v2 (velocity (tick dt s)) = - v2 (velocity (updatePosition dt s))
          \<and> v2 (position (tick dt s)) = v2 (position (updatePosition dt s)))
   \<and> (mass s \<noteq> 0 \<and> radius s < 10 \<and> on_bound (xRange defaultBoundingRange) (radius s) (v0 (position s))
      \<longrightarrow> v0 (position ((tick 0 ^^ n) s)) = v0 (position s)
          \<and> v0 (velocity ((tick 0 ^^ n) s)) = (- 1) ^ n * v0 (velocity s))
   \<and> (mass s \<noteq> 0 \<and> radius s < 10 \<and> on_bound (yRange defaultBoundingRange) (radius s) (v1 (position s))
      \<longrightarrow> v1 (position ((tick 0 ^^ n) s)) = v1 (position s)
          \<and> v1 (velocity ((tick 0 ^^ n) s)) = (- 1) ^ n * v1 (velocity s))
   \<and> (mass s \<noteq> 0 \<and> radius s < 10 \<and> on_bound (zRange defaultBoundingRange) (radius s) (v2 (position s))
      \<longrightarrow> v2 (position ((tick 0 ^^ n) s)) = v2 (position s)
          \<and> v2 (velocity ((tick 0 ^^ n) s)) = (- 1) ^ n * v2 (velocity s))"
  using tick_on_bound [of s dt] resting_x [of s n] resting_y [of s n] resting_z [of s n]
  unfolding on_bound_def by blast

text \<open>
  Claim C10 as stated fails twice. A sphere on the lower x bound that moves into the box
  is not on the bound after the move, and the tick does not negate the component; and
  with radius 10 the two bounds coincide, both tests succeed for a sphere on them, and the
  component negated twice is unchanged.
\<close>

theorem on_bound_not_always_flipped:
  "on_bound (xRange defaultBoundingRange) (radius (Sphere 1 (- 9, 0, 0) (1, 0, 0) (1, 1, 1)))
     (v0 (position (Sphere 1 (- 9, 0, 0) (1, 0, 0) (1, 1, 1))))
   \<and> v0 (velocity (updatePosition 1 (Sphere 1 (- 9, 0, 0) (1, 0, 0) (1, 1, 1)))) = 0.9
   \<and> v0 (velocity (tick 1 (Sphere 1 (- 9, 0, 0) (1, 0, 0) (1, 1, 1)))) = 0.9
   \<and> on_bound (xRange defaultBoundingRange) (radius (Sphere 10 (0, 0, 0) (1, 0, 0) (1, 1, 1)))
     (v0 (position (updatePosition 0 (Sphere 10 (0, 0, 0) (1, 0, 0) (1, 1, 1)))))
   \<and> v0 (velocity (updatePosition 0 (Sphere 10 (0, 0, 0) (1, 0, 0) (1, 1, 1)))) = 1
   \<and> v0 (velocity (tick 0 (Sphere 10 (0, 0, 0) (1, 0, 0) (1, 1, 1)))) = 1"
proof -
  let ?w = "Sphere 1 (- 9, 0, 0) (1, 0, 0) (1, 1, 1)"
  let ?d = "Sphere 10 (0, 0, 0) (1, 0, 0) (1, 1, 1)"
  have w: "v0 (position (updatePosition 1 ?w)) = - 8.1" "v0 (velocity (updatePosition 1 ?w)) = 0.9"
    "radius (updatePosition 1 ?w) = 1"
    by (simp_all add: updatePosition_explicit frame_updatePosition Sphere_fields)
  have tw: "v0 (velocity (tick 1 ?w)) = 0.9"
    by (simp add: tick_def velocity_handleCollisions w inset_default collide_axis_def Let_def)
  have d: "v0 (position (updatePosition 0 ?d)) = 0" "v0 (velocity (updatePosition 0 ?d)) = 1"
    "radius (updatePosition 0 ?d) = 10"
    by (simp_all add: updatePosition_zero frame_updatePosition Sphere_fields)
  have td: "v0 (velocity (tick 0 ?d)) = 1"
    by (simp add: tick_def velocity_handleCollisions d inset_default collide_axis_def Let_def)
  show ?thesis
    by (simp add: w tw d td on_bound_def inset_default Sphere_fields)
qed

text \<open>
  A sphere of radius 1 on the lower x bound with x velocity 2: one tick of step zero gives
  \<open>- 2\<close>, and so do three.
\<close>

theorem on_bound_flips_velocity_witness:
  "mass (Sphere 1 (- 9, 0, 0) (2, 0, 0) (1, 1, 1)) \<noteq> 0
   \<and> radius (Sphere 1 (- 9, 0, 0) (2, 0, 0) (1, 1, 1)) < 10
   \<and> on_bound (xRange defaultBoundingRange) (radius (Sphere 1 (- 9, 0, 0) (2, 0, 0) (1, 1, 1)))
        (v0 (position (Sphere 1 (- 9, 0, 0) (2, 0, 0) (1, 1, 1))))
   \<and> on_bound (xRange defaultBoundingRange) (radius (Sphere 1 (- 9, 0, 0) (2, 0, 0) (1, 1, 1)))
        (v0 (position (updatePosition 0 (Sphere 1 (- 9, 0, 0) (2, 0, 0) (1, 1, 1)))))
   \<and> v0 (velocity (tick 0 (Sphere 1 (- 9, 0, 0) (2, 0, 0) (1, 1, 1)))) = - 2
   \<and> v0 (position (tick 0 (Sphere 1 (- 9, 0, 0) (2, 0, 0) (1, 1, 1)))) = - 9
   \<and> v0 (velocity ((tick 0 ^^ 3) (Sphere 1 (- 9, 0, 0) (2, 0, 0) (1, 1, 1)))) = - 2
   \<and> v0 (position ((tick 0 ^^ 3) (Sphere 1 (- 9, 0, 0) (2, 0, 0) (1, 1, 1)))) = - 9"
proof -
  let ?s = "Sphere 1 (- 9, 0, 0) (2, 0, 0) (1, 1, 1)"
  have b: "on_bound (xRange defaultBoundingRange) (radius ?s) (v0 (position ?s))"
    by (simp add: on_bound_def inset_default Sphere_fields)
  from on_bound_flips_velocity [of ?s 0 3] b show ?thesis
    by (simp add: updatePosition_zero Sphere_fields)
qed

end
